theory Spec2Isabelle
  imports Main
begin

section \<open>Values exchanged with the outside world\<close>

text \<open>
  The backend (\<^verbatim>\<open>src/backend/server.js\<close>) is an Express application: every handler reads a
  JSON body, talks to a PostgreSQL store through \<^verbatim>\<open>pool.query\<close>, and answers with
  \<^verbatim>\<open>res.status(n).json(v)\<close>. JSON values are modelled by a datatype; numbers are integers
  (no fractional number occurs in any payload the handlers build). A key whose value is
  \<^verbatim>\<open>undefined\<close> is dropped by JSON serialisation, so an optional member is a
  \<open>json option\<close> and \<open>None\<close> stands for \<^verbatim>\<open>undefined\<close>. A parsed object is the list of its
  members, each key once; \<open>map_of\<close> reads a member.
\<close>

datatype json =
    JNull
  | JBool bool
  | JNum int
  | JStr string
  | JArr "json list"
  | JObj "(string \<times> json) list"

text \<open>JavaScript truthiness of a member read from a parsed JSON body (\<^verbatim>\<open>!x\<close> is its negation).\<close>

fun js_truthy :: "json option \<Rightarrow> bool" where
  "js_truthy None = False"
| "js_truthy (Some JNull) = False"
| "js_truthy (Some (JBool b)) = b"
| "js_truthy (Some (JNum n)) = (n \<noteq> 0)"
| "js_truthy (Some (JStr s)) = (s \<noteq> [])"
| "js_truthy (Some (JArr xs)) = True"
| "js_truthy (Some (JObj kvs)) = True"

record response =
  status :: nat
  body :: json

text \<open>\<^verbatim>\<open>res.status(n).json({ error: msg })\<close>\<close>

definition error_response :: "nat \<Rightarrow> string \<Rightarrow> response" where
  "error_response n msg = \<lparr>status = n, body = JObj [(''error'', JStr msg)]\<rparr>"

section \<open>The relational store (\<^verbatim>\<open>src/postgres/init.sql\<close>)\<close>

text \<open>
  Times are milliseconds since the epoch. A nullable column is an \<open>option\<close>. The transcript
  column \<^verbatim>\<open>conversation_log JSONB\<close> holds an ordered sequence of exchanges
  \<^verbatim>\<open>{role, content, timestamp}\<close>; the only writers in the repository are the two session
  handlers, which store \<^verbatim>\<open>'[]'\<close> and an array of such entries, so the column is typed as an
  optional list of entries. The \<^verbatim>\<open>appointments\<close> table is never touched by the backend and
  is left out.

  A statement is rejected when a parameter is not a value of its column's type (a text or
  a \<^verbatim>\<open>JSONB\<close> value with the character U+0000, see below) or when it breaks a constraint that
  \<^verbatim>\<open>init.sql\<close> declares (length of a \<^verbatim>\<open>VARCHAR\<close>, range of an \<^verbatim>\<open>INTEGER\<close>, \<^verbatim>\<open>UNIQUE\<close>,
  \<^verbatim>\<open>REFERENCES\<close>); the handler's \<^verbatim>\<open>catch\<close> then answers. A store that cannot be reached, and
  the statements of other clients running in between, are outside the model: each handler
  runs alone against a store that answers.
\<close>

record log_entry =
  role :: string
  content :: "json option"
  timestamp :: nat

record user_row =
  u_id :: int
  u_email :: string
  u_password_hash :: string
  u_first_name :: "string option"
  u_last_name :: "string option"
  u_phone :: "string option"
  u_created_at :: nat
  u_updated_at :: nat

record chat_session =
  cs_id :: int
  user_id :: "int option"
  session_token :: string
  conversation_log :: "log_entry list option"
  created_at :: nat
  updated_at :: nat
  expires_at :: nat

text \<open>
  The two \<^verbatim>\<open>SERIAL\<close> columns draw their values from sequences; \<open>users_id_seq\<close> and
  \<open>chat_sessions_id_seq\<close> hold the last value handed out.
\<close>

record store =
  users :: "user_row list"
  chat_sessions :: "chat_session list"
  users_id_seq :: int
  chat_sessions_id_seq :: int

datatype db_error =
    InvalidByteSequence
  | UnsupportedUnicodeEscape
  | ValueTooLong nat
  | UniqueViolation
  | ForeignKeyViolation
  | IntegerOutOfRange

text \<open>
  A text value cannot hold the character U+0000: a statement with a text parameter that
  contains it is rejected (\<^verbatim>\<open>invalid byte sequence for encoding "UTF8": 0x00\<close>) before it
  runs. This is where a string taken from a request body can make a statement fail.
\<close>

definition has_zero_byte :: "string \<Rightarrow> bool" where
  "has_zero_byte s = (CHR 0x00 \<in> set s)"

definition pg_text :: "string \<Rightarrow> db_error + string" where
  "pg_text s = (if has_zero_byte s then Inl InvalidByteSequence else Inr s)"

text \<open>
  A \<^verbatim>\<open>JSONB\<close> value cannot hold it either: \<^verbatim>\<open>JSON.stringify\<close> writes the character as the
  escape \<^verbatim>\<open>\u0000\<close>, which the \<^verbatim>\<open>JSONB\<close> input refuses in a string or in a key
  (\<^verbatim>\<open>unsupported Unicode escape sequence\<close>).
\<close>

fun json_has_zero :: "json \<Rightarrow> bool" where
  "json_has_zero JNull = False"
| "json_has_zero (JBool b) = False"
| "json_has_zero (JNum n) = False"
| "json_has_zero (JStr s) = has_zero_byte s"
| "json_has_zero (JArr xs) = list_ex json_has_zero xs"
| "json_has_zero (JObj kvs) =
     list_ex (\<lambda>kv. has_zero_byte (fst kv) \<or> json_has_zero (snd kv)) kvs"

definition entry_has_zero :: "log_entry \<Rightarrow> bool" where
  "entry_has_zero e =
     (has_zero_byte (role e) \<or>
      (case content e of None \<Rightarrow> False | Some c \<Rightarrow> json_has_zero c))"

definition jsonb_log :: "log_entry list \<Rightarrow> db_error + log_entry list" where
  "jsonb_log lg = (if list_ex entry_has_zero lg then Inl UnsupportedUnicodeEscape else Inr lg)"

text \<open>
  Assignment to a \<^verbatim>\<open>VARCHAR(n)\<close> column: a longer value is an error, unless the excess
  characters are all spaces, in which case the value is truncated to \<open>n\<close> characters.
\<close>

definition varchar :: "nat \<Rightarrow> string \<Rightarrow> db_error + string" where
  "varchar n s =
     (if length s \<le> n then Inr s
      else if list_all (\<lambda>c. c = CHR '' '') (drop n s) then Inr (take n s)
      else Inl (ValueTooLong n))"

text \<open>Assignment to an \<^verbatim>\<open>INTEGER\<close> column (32 bits, signed).\<close>

definition int4 :: "int \<Rightarrow> db_error + int" where
  "int4 n = (if - 2147483648 \<le> n \<and> n \<le> 2147483647 then Inr n else Inl IntegerOutOfRange)"

section \<open>Third-party libraries and configuration\<close>

text \<open>
  The handlers call \<^verbatim>\<open>jsonwebtoken\<close>, \<^verbatim>\<open>bcryptjs\<close>, \<^verbatim>\<open>joi\<close> and \<^verbatim>\<open>pg\<close>. None of them is
  part of the repository, so what they compute is a parameter of every handler:
  \<^item> \<open>jwt_sign payload secret expiresIn now\<close> is \<^verbatim>\<open>jwt.sign(payload, secret, {expiresIn})\<close>
    called at time \<open>now\<close> (\<open>expiresIn\<close> in seconds);
  \<^item> \<open>jwt_verify token secret now\<close> is \<^verbatim>\<open>jwt.verify(token, secret, cb)\<close>: \<open>None\<close> when the callback
    receives an error, the decoded payload otherwise;
  \<^item> \<open>bcrypt_hash password salt\<close> and \<open>bcrypt_compare password hash\<close> on strings;
  \<^item> \<open>joi_email\<close> is the test behind \<^verbatim>\<open>Joi.string().email()\<close>;
  \<^item> \<open>pg_prepareValue\<close> is the text \<^verbatim>\<open>pg\<close> sends for a query parameter that is not a string,
    \<open>pg_error_message\<close> and \<open>pg_error_stack\<close> the \<^verbatim>\<open>message\<close> and the \<^verbatim>\<open>stack\<close> of the error it
    throws for a rejected statement.

  A signed payload is one of the three shapes the handlers sign; \<^verbatim>\<open>jsonwebtoken\<close> adds
  \<^verbatim>\<open>iat\<close> and \<^verbatim>\<open>exp\<close> (seconds).
\<close>

datatype claims =
    IdentityClaims int string
  | ChatbotClaims "int option" string
  | SessionClaims "int option" nat

record jwt_payload =
  jwt_claims :: claims
  iat :: nat
  exp :: nat

record libs =
  jwt_sign :: "claims \<Rightarrow> string \<Rightarrow> nat \<Rightarrow> nat \<Rightarrow> string"
  jwt_verify :: "string \<Rightarrow> string \<Rightarrow> nat \<Rightarrow> jwt_payload option"
  bcrypt_hash :: "string \<Rightarrow> string \<Rightarrow> string"
  bcrypt_compare :: "string \<Rightarrow> string \<Rightarrow> bool"
  joi_email :: "string \<Rightarrow> bool"
  pg_prepareValue :: "json \<Rightarrow> string"
  pg_error_message :: "db_error \<Rightarrow> string"
  pg_error_stack :: "db_error \<Rightarrow> string"

record config =
  JWT_SECRET :: "string option"
  NODE_ENV :: "string option"

text \<open>\<^verbatim>\<open>process.env.JWT_SECRET || 'default_secret'\<close>\<close>

definition jwt_secret :: "config \<Rightarrow> string" where
  "jwt_secret cfg =
     (case JWT_SECRET cfg of
        None \<Rightarrow> ''default_secret''
      | Some s \<Rightarrow> if s = [] then ''default_secret'' else s)"

text \<open>The text of a query parameter: a string is sent as it is.\<close>

definition pg_param :: "libs \<Rightarrow> json \<Rightarrow> string" where
  "pg_param L v = (case v of JStr s \<Rightarrow> s | _ \<Rightarrow> pg_prepareValue L v)"

text \<open>\<^verbatim>\<open>req.user.id\<close>: only the identity token signed at login has an \<^verbatim>\<open>id\<close> member.\<close>

definition req_user_id :: "jwt_payload \<Rightarrow> int option" where
  "req_user_id user =
     (case jwt_claims user of
        IdentityClaims i e \<Rightarrow> Some i
      | ChatbotClaims u t \<Rightarrow> None
      | SessionClaims u s \<Rightarrow> None)"

section \<open>Effects\<close>

text \<open>
  A handler returns its response, the store it leaves behind, and the list of the
  statements it sent to the store and of the requests it sent to the NLP collaborator, in
  order.
\<close>

record chat_request =
  rq_message :: json
  rq_user_id :: "int option"
  rq_session_token :: json

datatype effect = DbRead | DbWrite | HttpPost chat_request

text \<open>
  What \<^verbatim>\<open>axios.post\<close> (30 s timeout) gives back: a rejection carrying its message and, when
  the collaborator answered at all, the body of that answer (\<^verbatim>\<open>pythonError.response?.data\<close>);
  or the body of a 2xx answer, an object \<^verbatim>\<open>{response, action?, appointment_details?}\<close>
  (a 2xx answer whose body is not an object is outside the model).
\<close>

datatype collab_result =
    CollabError string "json option"
  | CollabOk "(string \<times> json) list"

section \<open>Message proxy: \<^verbatim>\<open>POST /api/chatbot/message\<close>\<close>

text \<open>\<^verbatim>\<open>SELECT * FROM chat_sessions WHERE session_token = $1 AND expires_at > NOW()\<close>\<close>

definition select_valid_sessions ::
  "store \<Rightarrow> string \<Rightarrow> nat \<Rightarrow> db_error + chat_session list" where
  "select_valid_sessions st tok now =
     (case pg_text tok of
        Inl e \<Rightarrow> Inl e
      | Inr tok' \<Rightarrow>
          Inr (filter (\<lambda>r. session_token r = tok' \<and> now < expires_at r) (chat_sessions st)))"

text \<open>\<^verbatim>\<open>UPDATE chat_sessions SET conversation_log = $1 WHERE session_token = $2\<close>\<close>

definition set_conversation_log :: "store \<Rightarrow> log_entry list \<Rightarrow> string \<Rightarrow> store" where
  "set_conversation_log st lg tok =
     st\<lparr>chat_sessions :=
          map (\<lambda>r. if session_token r = tok then r\<lparr>conversation_log := Some lg\<rparr> else r)
              (chat_sessions st)\<rparr>"

definition update_conversation_log ::
  "store \<Rightarrow> log_entry list \<Rightarrow> string \<Rightarrow> db_error + store" where
  "update_conversation_log st lg tok =
     (case jsonb_log lg of
        Inl e \<Rightarrow> Inl e
      | Inr lg' \<Rightarrow>
     (case pg_text tok of
        Inl e \<Rightarrow> Inl e
      | Inr tok' \<Rightarrow> Inr (set_conversation_log st lg' tok')))"

text \<open>
  What the environment decides during one call: the server's clock when the request
  arrives (the logging middleware reads it), the store's clock when the \<^verbatim>\<open>SELECT\<close> runs,
  the collaborator's answer to the forwarded request, and the two readings of the server's
  clock (\<^verbatim>\<open>new Date()\<close>) taken while the new transcript is built.
\<close>

record msg_env =
  t_request :: nat
  db_now :: nat
  collab :: "chat_request \<Rightarrow> collab_result"
  t_user :: nat
  t_assistant :: nat

text \<open>
  The body of the inner \<^verbatim>\<open>catch\<close>: \<^verbatim>\<open>details\<close> is \<^verbatim>\<open>undefined\<close>, and so absent from the JSON,
  unless \<^verbatim>\<open>NODE_ENV\<close> is \<^verbatim>\<open>development\<close> and the collaborator sent a body.
\<close>

definition python_error_response :: "config \<Rightarrow> string \<Rightarrow> json option \<Rightarrow> response" where
  "python_error_response cfg msg dat =
     \<lparr>status = 500,
      body = JObj ((''error'', JStr (''Python service error: '' @ msg)) #
                   (if NODE_ENV cfg = Some ''development''
                    then (case dat of None \<Rightarrow> [] | Some d \<Rightarrow> [(''details'', d)])
                    else []))\<rparr>"

text \<open>
  The body of the outer \<^verbatim>\<open>catch\<close>, which a rejected statement reaches: \<^verbatim>\<open>details\<close> is the
  stack of the error when \<^verbatim>\<open>NODE_ENV\<close> is \<^verbatim>\<open>development\<close>, and absent otherwise.
\<close>

definition chat_message_error_response :: "libs \<Rightarrow> config \<Rightarrow> db_error \<Rightarrow> response" where
  "chat_message_error_response L cfg e =
     \<lparr>status = 500,
      body = JObj ((''error'',
                    JStr (''Failed to process chat message: '' @ pg_error_message L e)) #
                   (if NODE_ENV cfg = Some ''development''
                    then [(''details'', JStr (pg_error_stack L e))]
                    else []))\<rparr>"

text \<open>
  The handler proper, entered once \<open>authenticateToken\<close> has put the verified payload in
  \<^verbatim>\<open>req.user\<close>. The \<^verbatim>\<open>SELECT\<close> is rejected when the session token is not a text value, the
  \<^verbatim>\<open>UPDATE\<close> when the new transcript is not a \<^verbatim>\<open>JSONB\<close> value; either way the outer \<^verbatim>\<open>catch\<close>
  answers and nothing is written.
\<close>

definition sendMessage ::
  "libs \<Rightarrow> config \<Rightarrow> msg_env \<Rightarrow> store \<Rightarrow> jwt_payload \<Rightarrow> (string \<times> json) list
     \<Rightarrow> response \<times> store \<times> effect list" where
  "sendMessage L cfg env st user req_body =
     (let message = map_of req_body ''message'';
          sessionToken = map_of req_body ''sessionToken''
      in if \<not> js_truthy message \<or> \<not> js_truthy sessionToken
         then (error_response 400 ''Message and session token required'', st, [])
         else
           (case (message, sessionToken) of
              (Some m, Some t) \<Rightarrow>
                (case select_valid_sessions st (pg_param L t) (db_now env) of
                   Inl e \<Rightarrow> (chat_message_error_response L cfg e, st, [DbRead])
                 | Inr [] \<Rightarrow>
                     (error_response 400 ''Invalid or expired session'', st, [DbRead])
                 | Inr (session # rest) \<Rightarrow>
                     (let rq = \<lparr>rq_message = m, rq_user_id = req_user_id user,
                                rq_session_token = t\<rparr>
                      in case collab env rq of
                           CollabError msg dat \<Rightarrow>
                             (python_error_response cfg msg dat, st, [DbRead, HttpPost rq])
                         | CollabOk dat \<Rightarrow>
                             (let conversationLog =
                                    (case conversation_log session of
                                       None \<Rightarrow> [] | Some lg \<Rightarrow> lg);
                                  updatedLog = conversationLog @
                                    [\<lparr>role = ''user'', content = Some m,
                                      timestamp = t_user env\<rparr>,
                                     \<lparr>role = ''assistant'',
                                      content = map_of dat ''response'',
                                      timestamp = t_assistant env\<rparr>]
                              in case update_conversation_log st updatedLog
                                        (pg_param L t) of
                                   Inl e \<Rightarrow>
                                     (chat_message_error_response L cfg e, st,
                                      [DbRead, HttpPost rq, DbWrite])
                                 | Inr st' \<Rightarrow>
                                     (\<lparr>status = 200, body = JObj dat\<rparr>, st',
                                      [DbRead, HttpPost rq, DbWrite]))))
            | _ \<Rightarrow> (error_response 400 ''Message and session token required'', st, [])))"

section \<open>Authentication gate: \<^verbatim>\<open>authenticateToken\<close>\<close>

text \<open>\<^verbatim>\<open>String.prototype.split(' ')\<close>: the pieces between single spaces, empty pieces kept.\<close>

fun js_split :: "string \<Rightarrow> string list" where
  "js_split [] = [[]]"
| "js_split (c # cs) =
     (if c = CHR '' '' then [] # js_split cs
      else (case js_split cs of [] \<Rightarrow> [[c]] | w # ws \<Rightarrow> (c # w) # ws))"

text \<open>Indexing a JavaScript array: \<^verbatim>\<open>undefined\<close> beyond its end.\<close>

fun js_index :: "'a list \<Rightarrow> nat \<Rightarrow> 'a option" where
  "js_index [] n = None"
| "js_index (x # xs) 0 = Some x"
| "js_index (x # xs) (Suc n) = js_index xs n"

text \<open>
  \<^verbatim>\<open>authHeader && authHeader.split(' ')[1]\<close>: an absent header gives \<^verbatim>\<open>undefined\<close>, an empty
  one the empty string, and both are falsy, like an empty second piece.
\<close>

definition bearer_token :: "string option \<Rightarrow> string option" where
  "bearer_token authHeader =
     (case authHeader of
        None \<Rightarrow> None
      | Some h \<Rightarrow> if h = [] then Some [] else js_index (js_split h) (Suc 0))"

definition authenticateToken ::
  "libs \<Rightarrow> config \<Rightarrow> nat \<Rightarrow> string option \<Rightarrow> response + jwt_payload" where
  "authenticateToken L cfg now authHeader =
     (case bearer_token authHeader of
        None \<Rightarrow> Inl (error_response 401 ''Access token required'')
      | Some token \<Rightarrow>
          if token = [] then Inl (error_response 401 ''Access token required'')
          else (case jwt_verify L token (jwt_secret cfg) now of
                  None \<Rightarrow> Inl (error_response 403 ''Invalid or expired token'')
                | Some user \<Rightarrow> Inr user))"

section \<open>Auth service: \<^verbatim>\<open>POST /api/auth/register\<close>\<close>

text \<open>
  \<^verbatim>\<open>userSchema.validate(req.body)\<close> with Joi's defaults: the four keys are checked in the
  order of the schema and the first error ends the validation; a key that the schema does
  not name is an error; a string is required to be a string and not empty before its own
  rule (\<^verbatim>\<open>email()\<close>, \<^verbatim>\<open>min(6)\<close>) is tried.
\<close>

datatype joi_error =
    AnyRequired string
  | StringBase string
  | StringEmpty string
  | StringEmail string
  | StringMin string
  | ObjectUnknown string

definition joi_label :: "string \<Rightarrow> string" where
  "joi_label k = CHR 0x22 # k @ [CHR 0x22]"

fun joi_message :: "joi_error \<Rightarrow> string" where
  "joi_message (AnyRequired k) = joi_label k @ '' is required''"
| "joi_message (StringBase k) = joi_label k @ '' must be a string''"
| "joi_message (StringEmpty k) = joi_label k @ '' is not allowed to be empty''"
| "joi_message (StringEmail k) = joi_label k @ '' must be a valid email''"
| "joi_message (StringMin k) = joi_label k @ '' length must be at least 6 characters long''"
| "joi_message (ObjectUnknown k) = joi_label k @ '' is not allowed''"

text \<open>\<^verbatim>\<open>Joi.string()...required()\<close> on the member \<open>v\<close> of key \<open>k\<close>, with the rule \<open>ok\<close>.\<close>

definition joi_string ::
  "string \<Rightarrow> (string \<Rightarrow> bool) \<Rightarrow> joi_error \<Rightarrow> json option \<Rightarrow> joi_error + string" where
  "joi_string k ok e v =
     (case v of
        None \<Rightarrow> Inl (AnyRequired k)
      | Some (JStr s) \<Rightarrow>
          if s = [] then Inl (StringEmpty k) else if ok s then Inr s else Inl e
      | Some _ \<Rightarrow> Inl (StringBase k))"

record user_input =
  email :: string
  password :: string
  first_name :: string
  last_name :: string

definition userSchema_validate ::
  "libs \<Rightarrow> (string \<times> json) list \<Rightarrow> joi_error + user_input" where
  "userSchema_validate L req_body =
     (case joi_string ''email'' (joi_email L) (StringEmail ''email'')
             (map_of req_body ''email'') of
        Inl e \<Rightarrow> Inl e
      | Inr em \<Rightarrow>
     (case joi_string ''password'' (\<lambda>s. 6 \<le> length s) (StringMin ''password'')
             (map_of req_body ''password'') of
        Inl e \<Rightarrow> Inl e
      | Inr pw \<Rightarrow>
     (case joi_string ''first_name'' (\<lambda>s. True) (StringBase ''first_name'')
             (map_of req_body ''first_name'') of
        Inl e \<Rightarrow> Inl e
      | Inr fn \<Rightarrow>
     (case joi_string ''last_name'' (\<lambda>s. True) (StringBase ''last_name'')
             (map_of req_body ''last_name'') of
        Inl e \<Rightarrow> Inl e
      | Inr ln \<Rightarrow>
     (case filter (\<lambda>k. k \<notin> set [''email'', ''password'', ''first_name'', ''last_name''])
                  (map fst req_body) of
        k # ks \<Rightarrow> Inl (ObjectUnknown k)
      | [] \<Rightarrow> Inr \<lparr>email = em, password = pw, first_name = fn, last_name = ln\<rparr>)))))"

text \<open>\<^verbatim>\<open>SELECT id FROM users WHERE email = $1\<close>\<close>

definition select_user_ids_by_email :: "store \<Rightarrow> string \<Rightarrow> db_error + int list" where
  "select_user_ids_by_email st em =
     (case pg_text em of
        Inl e \<Rightarrow> Inl e
      | Inr em' \<Rightarrow> Inr (map u_id (filter (\<lambda>u. u_email u = em') (users st))))"

text \<open>
  \<^verbatim>\<open>INSERT INTO users (email, password_hash, first_name, last_name) VALUES ($1, $2, $3, $4)
  RETURNING id, email, first_name, last_name\<close> under the table's declaration:
  \<^verbatim>\<open>email VARCHAR(255) UNIQUE NOT NULL\<close>, \<^verbatim>\<open>password_hash TEXT\<close>, \<^verbatim>\<open>first_name VARCHAR(100)\<close>,
  \<^verbatim>\<open>last_name VARCHAR(100)\<close>, the other columns at their defaults. The four parameters are
  text. A rejected statement leaves the tables as they were.
\<close>

definition insert_user ::
  "store \<Rightarrow> nat \<Rightarrow> string \<Rightarrow> string \<Rightarrow> string \<Rightarrow> string \<Rightarrow> db_error + (user_row \<times> store)" where
  "insert_user st now em hashed fn ln =
     (if has_zero_byte em \<or> has_zero_byte hashed \<or> has_zero_byte fn \<or> has_zero_byte ln
      then Inl InvalidByteSequence
      else
     (case varchar 255 em of
        Inl e \<Rightarrow> Inl e
      | Inr em' \<Rightarrow>
     (case varchar 100 fn of
        Inl e \<Rightarrow> Inl e
      | Inr fn' \<Rightarrow>
     (case varchar 100 ln of
        Inl e \<Rightarrow> Inl e
      | Inr ln' \<Rightarrow>
          if filter (\<lambda>u. u_email u = em') (users st) \<noteq> [] then Inl UniqueViolation
          else
            (let row = \<lparr>u_id = users_id_seq st + 1, u_email = em', u_password_hash = hashed,
                        u_first_name = Some fn', u_last_name = Some ln', u_phone = None,
                        u_created_at = now, u_updated_at = now\<rparr>
             in Inr (row, st\<lparr>users := users st @ [row],
                             users_id_seq := users_id_seq st + 1\<rparr>))))))"

definition json_text :: "string option \<Rightarrow> json" where
  "json_text v = (case v of None \<Rightarrow> JNull | Some s \<Rightarrow> JStr s)"

text \<open>The members \<^verbatim>\<open>id, email, first_name, last_name\<close> of a user row.\<close>

definition public_user :: "user_row \<Rightarrow> json" where
  "public_user u =
     JObj [(''id'', JNum (u_id u)), (''email'', JStr (u_email u)),
           (''first_name'', json_text (u_first_name u)),
           (''last_name'', json_text (u_last_name u))]"

text \<open>
  The environment of one registration: the store's clock (\<^verbatim>\<open>CURRENT_TIMESTAMP\<close>) and the
  salt that \<^verbatim>\<open>bcrypt.genSalt(10)\<close> draws.
\<close>

record reg_env =
  reg_db_now :: nat
  salt :: string

definition register ::
  "libs \<Rightarrow> reg_env \<Rightarrow> store \<Rightarrow> (string \<times> json) list \<Rightarrow> response \<times> store \<times> effect list" where
  "register L env st req_body =
     (case userSchema_validate L req_body of
        Inl e \<Rightarrow> (error_response 400 (joi_message e), st, [])
      | Inr v \<Rightarrow>
          (case select_user_ids_by_email st (email v) of
             Inl e \<Rightarrow> (error_response 500 ''Internal server error'', st, [DbRead])
           | Inr existingUser \<Rightarrow>
               if existingUser \<noteq> []
               then (error_response 409 ''User already exists'', st, [DbRead])
               else
                 (let hashedPassword = bcrypt_hash L (password v) (salt env)
                  in case insert_user st (reg_db_now env) (email v) hashedPassword
                            (first_name v) (last_name v) of
                       Inl e \<Rightarrow>
                         (error_response 500 ''Internal server error'', st,
                          [DbRead, DbWrite])
                     | Inr (row, st') \<Rightarrow>
                         (\<lparr>status = 201,
                           body = JObj [(''message'', JStr ''User registered successfully''),
                                        (''user'', public_user row)]\<rparr>,
                          st', [DbRead, DbWrite]))))"

section \<open>Auth service: \<^verbatim>\<open>POST /api/auth/login\<close>\<close>

text \<open>
  \<^verbatim>\<open>bcrypt.compare(password, user.password_hash)\<close>: \<^verbatim>\<open>bcryptjs\<close> rejects the call
  (\<^verbatim>\<open>Illegal arguments\<close>) unless both arguments are strings; the stored hash is a
  \<^verbatim>\<open>TEXT NOT NULL\<close> column, the password is whatever member the request body carries.
\<close>

datatype js_error = IllegalArguments

definition bcrypt_compare_call :: "libs \<Rightarrow> json \<Rightarrow> string \<Rightarrow> js_error + bool" where
  "bcrypt_compare_call L pw hashed =
     (case pw of
        JStr s \<Rightarrow> Inr (bcrypt_compare L s hashed)
      | _ \<Rightarrow> Inl IllegalArguments)"

text \<open>\<^verbatim>\<open>SELECT * FROM users WHERE email = $1\<close>\<close>

definition select_users_by_email :: "store \<Rightarrow> string \<Rightarrow> db_error + user_row list" where
  "select_users_by_email st em =
     (case pg_text em of
        Inl e \<Rightarrow> Inl e
      | Inr em' \<Rightarrow> Inr (filter (\<lambda>u. u_email u = em') (users st)))"

definition login ::
  "libs \<Rightarrow> config \<Rightarrow> nat \<Rightarrow> store \<Rightarrow> (string \<times> json) list
     \<Rightarrow> response \<times> store \<times> effect list" where
  "login L cfg now st req_body =
     (let em = map_of req_body ''email''; pw = map_of req_body ''password''
      in if \<not> js_truthy em \<or> \<not> js_truthy pw
         then (error_response 400 ''Email and password required'', st, [])
         else
           (case (em, pw) of
              (Some e, Some p) \<Rightarrow>
                (case select_users_by_email st (pg_param L e) of
                   Inl err \<Rightarrow>
                     (error_response 500 ''Internal server error'', st, [DbRead])
                 | Inr [] \<Rightarrow> (error_response 401 ''Invalid credentials'', st, [DbRead])
                 | Inr (user # rest) \<Rightarrow>
                     (case bcrypt_compare_call L p (u_password_hash user) of
                        Inl err \<Rightarrow>
                          (error_response 500 ''Internal server error'', st, [DbRead])
                      | Inr validPassword \<Rightarrow>
                          if \<not> validPassword
                          then (error_response 401 ''Invalid credentials'', st, [DbRead])
                          else
                            (let token = jwt_sign L
                                   (IdentityClaims (u_id user) (u_email user))
                                   (jwt_secret cfg) (24 * 60 * 60) now
                             in (\<lparr>status = 200,
                                  body = JObj [(''token'', JStr token),
                                               (''user'', public_user user)]\<rparr>,
                                 st, [DbRead]))))
            | _ \<Rightarrow> (error_response 400 ''Email and password required'', st, [])))"

section \<open>Session service: \<^verbatim>\<open>GET /api/chatbot/token\<close>\<close>

text \<open>
  \<^verbatim>\<open>INSERT INTO chat_sessions (user_id, session_token, conversation_log, expires_at)
  VALUES ($1, $2, $3, $4) ON CONFLICT (session_token) DO UPDATE SET updated_at = NOW()\<close>
  under the table's declaration: \<^verbatim>\<open>user_id INTEGER REFERENCES users(id)\<close> (nullable),
  \<^verbatim>\<open>session_token VARCHAR(255) UNIQUE NOT NULL\<close>, \<^verbatim>\<open>created_at\<close> and \<^verbatim>\<open>updated_at\<close> at
  \<^verbatim>\<open>CURRENT_TIMESTAMP\<close>. The sequence behind \<^verbatim>\<open>id\<close> advances on the conflict path as well,
  since the default is computed before the conflict is seen. No parameter comes from the
  request: the token is what \<^verbatim>\<open>jwt.sign\<close> returned, the transcript is the constant \<^verbatim>\<open>'[]'\<close>.
\<close>

definition upsert_chat_session ::
  "store \<Rightarrow> nat \<Rightarrow> int option \<Rightarrow> string \<Rightarrow> log_entry list option \<Rightarrow> nat
     \<Rightarrow> db_error + store" where
  "upsert_chat_session st now uid tok lg expires =
     (case (case uid of None \<Rightarrow> Inr None | Some u \<Rightarrow> map_sum id Some (int4 u)) of
        Inl e \<Rightarrow> Inl e
      | Inr uid' \<Rightarrow>
     (case varchar 255 tok of
        Inl e \<Rightarrow> Inl e
      | Inr tok' \<Rightarrow>
          if filter (\<lambda>r. session_token r = tok') (chat_sessions st) \<noteq> []
          then Inr (st\<lparr>chat_sessions :=
                          map (\<lambda>r. if session_token r = tok' then r\<lparr>updated_at := now\<rparr> else r)
                              (chat_sessions st),
                        chat_sessions_id_seq := chat_sessions_id_seq st + 1\<rparr>)
          else
            (case uid' of
               None \<Rightarrow>
                 Inr (st\<lparr>chat_sessions := chat_sessions st @
                            [\<lparr>cs_id = chat_sessions_id_seq st + 1, user_id = None,
                              session_token = tok', conversation_log = lg,
                              created_at = now, updated_at = now, expires_at = expires\<rparr>],
                          chat_sessions_id_seq := chat_sessions_id_seq st + 1\<rparr>)
             | Some u \<Rightarrow>
                 if filter (\<lambda>w. u_id w = u) (users st) = [] then Inl ForeignKeyViolation
                 else
                   Inr (st\<lparr>chat_sessions := chat_sessions st @
                              [\<lparr>cs_id = chat_sessions_id_seq st + 1, user_id = Some u,
                                session_token = tok', conversation_log = lg,
                                created_at = now, updated_at = now, expires_at = expires\<rparr>],
                            chat_sessions_id_seq := chat_sessions_id_seq st + 1\<rparr>))))"

text \<open>
  The environment of one call: the server's clock when each token is signed
  (\<^verbatim>\<open>jwt.sign\<close> reads it for \<^verbatim>\<open>iat\<close>), the two \<^verbatim>\<open>Date.now()\<close> of the handler, and the store's
  clock (\<^verbatim>\<open>NOW()\<close>, \<^verbatim>\<open>CURRENT_TIMESTAMP\<close>).
\<close>

record tok_env =
  t_chat_iat :: nat
  t_sessionId :: nat
  t_session_iat :: nat
  t_expiry :: nat
  tok_db_now :: nat

definition issueToken ::
  "libs \<Rightarrow> config \<Rightarrow> tok_env \<Rightarrow> store \<Rightarrow> jwt_payload \<Rightarrow> response \<times> store \<times> effect list" where
  "issueToken L cfg env st user =
     (let userId = req_user_id user;
          chatToken = jwt_sign L (ChatbotClaims userId ''chatbot'') (jwt_secret cfg)
                        (15 * 60) (t_chat_iat env);
          sessionToken = jwt_sign L (SessionClaims userId (t_sessionId env)) (jwt_secret cfg)
                           (24 * 60 * 60) (t_session_iat env)
      in case upsert_chat_session st (tok_db_now env) userId sessionToken (Some [])
                (t_expiry env + 24 * 60 * 60 * 1000) of
           Inl e \<Rightarrow>
             (error_response 500
                (''Failed to generate chatbot token: '' @ pg_error_message L e), st, [DbWrite])
         | Inr st' \<Rightarrow>
             (\<lparr>status = 200,
               body = JObj [(''chatToken'', JStr chatToken),
                            (''sessionToken'', JStr sessionToken)]\<rparr>,
              st', [DbWrite]))"

section \<open>Notions used to state the properties\<close>

text \<open>The \<^verbatim>\<open>UNIQUE\<close> constraint on \<^verbatim>\<open>chat_sessions.session_token\<close>.\<close>

definition unique_session_tokens :: "store \<Rightarrow> bool" where
  "unique_session_tokens st = distinct (map session_token (chat_sessions st))"

text \<open>
  The transcript stored under a session token: that of the row carrying the token, a
  \<^verbatim>\<open>NULL\<close> column read as the empty transcript (as \<^verbatim>\<open>session.conversation_log || []\<close> does).
\<close>

definition transcript_of :: "store \<Rightarrow> string \<Rightarrow> log_entry list option" where
  "transcript_of st tok =
     (case filter (\<lambda>r. session_token r = tok) (chat_sessions st) of
        [] \<Rightarrow> None
      | r # rs \<Rightarrow> Some (case conversation_log r of None \<Rightarrow> [] | Some lg \<Rightarrow> lg))"


text \<open>
  The input constraints of registration in the words of the specification: an email of
  valid shape, a password of at least six characters, both names non-empty.
\<close>

definition string_member :: "(string \<times> json) list \<Rightarrow> string \<Rightarrow> string option" where
  "string_member req_body k =
     (case map_of req_body k of Some (JStr s) \<Rightarrow> Some s | _ \<Rightarrow> None)"

definition input_constraints :: "libs \<Rightarrow> (string \<times> json) list \<Rightarrow> bool" where
  "input_constraints L req_body =
     (case (string_member req_body ''email'', string_member req_body ''password'',
            string_member req_body ''first_name'', string_member req_body ''last_name'') of
        (Some em, Some pw, Some fn, Some ln) \<Rightarrow>
          joi_email L em \<and> 6 \<le> length pw \<and> fn \<noteq> [] \<and> ln \<noteq> []
      | _ \<Rightarrow> False)"

text \<open>
  What is asked of \<^verbatim>\<open>jsonwebtoken\<close> for one signed payload: the token is in compact form
  (not empty, no space), and verifying it with the signing secret at time \<open>t1\<close> gives back
  the payload with its \<^verbatim>\<open>iat\<close> and \<^verbatim>\<open>exp\<close> as long as \<open>exp\<close> has not been reached, and an error
  from then on.
\<close>

definition jwt_compact :: "libs \<Rightarrow> claims \<Rightarrow> string \<Rightarrow> nat \<Rightarrow> nat \<Rightarrow> bool" where
  "jwt_compact L c secret e t0 =
     (jwt_sign L c secret e t0 \<noteq> [] \<and> CHR '' '' \<notin> set (jwt_sign L c secret e t0))"

definition jwt_round_trip :: "libs \<Rightarrow> claims \<Rightarrow> string \<Rightarrow> nat \<Rightarrow> nat \<Rightarrow> nat \<Rightarrow> bool" where
  "jwt_round_trip L c secret e t0 t1 =
     (jwt_verify L (jwt_sign L c secret e t0) secret t1 =
        (if t1 div 1000 < t0 div 1000 + e
         then Some \<lparr>jwt_claims = c, iat = t0 div 1000, exp = t0 div 1000 + e\<rparr>
         else None))"

text \<open>The \<^verbatim>\<open>userId\<close> member of a verified payload.\<close>

definition payload_userId :: "jwt_payload \<Rightarrow> int option" where
  "payload_userId p =
     (case jwt_claims p of
        IdentityClaims i e \<Rightarrow> None
      | ChatbotClaims u t \<Rightarrow> u
      | SessionClaims u s \<Rightarrow> u)"

subsection \<open>A sample instance\<close>

text \<open>
  A small instance of the libraries and of the store, on which the handlers are
  evaluated: tokens are fixed words, the password hash is the salt followed by the
  password, every string with an \<open>@\<close> is an email. The store holds the two users of the
  sample data of \<^verbatim>\<open>init.sql\<close> and one chat session of the first.
\<close>

definition sample_sign :: "claims \<Rightarrow> string \<Rightarrow> nat \<Rightarrow> nat \<Rightarrow> string" where
  "sample_sign c secret e t0 =
     (case c of
        IdentityClaims i em \<Rightarrow> ''identity.token''
      | ChatbotClaims u t \<Rightarrow> ''chat.token''
      | SessionClaims u s \<Rightarrow> ''session.token'')"

definition sample_verify :: "string \<Rightarrow> string \<Rightarrow> nat \<Rightarrow> jwt_payload option" where
  "sample_verify tok secret t1 =
     (if tok = ''chat.token'' \<and> t1 div 1000 < 5 + 15 * 60
      then Some \<lparr>jwt_claims = ChatbotClaims (Some 1) ''chatbot'', iat = 5,
                 exp = 5 + 15 * 60\<rparr>
      else if tok = ''session.token'' \<and> t1 div 1000 < 5 + 24 * 60 * 60
      then Some \<lparr>jwt_claims = SessionClaims (Some 1) 5000, iat = 5,
                 exp = 5 + 24 * 60 * 60\<rparr>
      else None)"

definition sample_libs :: libs where
  "sample_libs =
     \<lparr>jwt_sign = sample_sign, jwt_verify = sample_verify,
      bcrypt_hash = (\<lambda>pw sl. sl @ pw), bcrypt_compare = (\<lambda>pw h. h = ''salt'' @ pw),
      joi_email = (\<lambda>s. CHR ''@'' \<in> set s), pg_prepareValue = (\<lambda>v. []),
      pg_error_message = (\<lambda>e. ''rejected''), pg_error_stack = (\<lambda>e. ''at Parser'')\<rparr>"

definition sample_config :: config where
  "sample_config = \<lparr>JWT_SECRET = None, NODE_ENV = None\<rparr>"

definition john :: user_row where
  "john = \<lparr>u_id = 1, u_email = ''john.doe@example.com'',
           u_password_hash = ''$2b$10$example_hash'', u_first_name = Some ''John'',
           u_last_name = Some ''Doe'', u_phone = Some ''+1234567890'',
           u_created_at = 0, u_updated_at = 0\<rparr>"

definition jane :: user_row where
  "jane = \<lparr>u_id = 2, u_email = ''jane.smith@example.com'',
           u_password_hash = ''$2b$10$example_hash'', u_first_name = Some ''Jane'',
           u_last_name = Some ''Smith'', u_phone = Some ''+0987654321'',
           u_created_at = 0, u_updated_at = 0\<rparr>"

definition johns_session :: chat_session where
  "johns_session =
     \<lparr>cs_id = 1, user_id = Some 1, session_token = ''s1'', conversation_log = Some [],
      created_at = 10, updated_at = 10, expires_at = 1000\<rparr>"

definition sample_store :: store where
  "sample_store =
     \<lparr>users = [john, jane], chat_sessions = [johns_session],
      users_id_seq = 2, chat_sessions_id_seq = 1\<rparr>"

definition sample_user :: "int \<Rightarrow> jwt_payload" where
  "sample_user i = \<lparr>jwt_claims = IdentityClaims i ''user@example.com'', iat = 0, exp = 86400\<rparr>"

definition sample_msg_env :: "collab_result \<Rightarrow> msg_env" where
  "sample_msg_env answer =
     \<lparr>t_request = 100, db_now = 100, collab = (\<lambda>rq. answer), t_user = 120,
      t_assistant = 121\<rparr>"

definition hello_body :: "(string \<times> json) list" where
  "hello_body = [(''message'', JStr ''hello''), (''sessionToken'', JStr ''s1'')]"

definition hello_request :: "int option \<Rightarrow> chat_request" where
  "hello_request uid =
     \<lparr>rq_message = JStr ''hello'', rq_user_id = uid, rq_session_token = JStr ''s1''\<rparr>"

definition sample_reply :: "(string \<times> json) list" where
  "sample_reply = [(''response'', JStr ''Hi, how can I help?'')]"

definition sample_reg_env :: reg_env where
  "sample_reg_env = \<lparr>reg_db_now = 50, salt = ''salt''\<rparr>"

definition registration :: "string \<Rightarrow> json \<Rightarrow> string \<Rightarrow> (string \<times> json) list" where
  "registration em pw fn =
     [(''email'', JStr em), (''password'', pw), (''first_name'', JStr fn),
      (''last_name'', JStr ''A'')]"

definition credentials :: "string \<Rightarrow> json \<Rightarrow> (string \<times> json) list" where
  "credentials em pw = [(''email'', JStr em), (''password'', pw)]"

definition sample_tok_env :: tok_env where
  "sample_tok_env =
     \<lparr>t_chat_iat = 5000, t_sessionId = 5000, t_session_iat = 5000, t_expiry = 5000,
      tok_db_now = 5000\<rparr>"

text \<open>
  The caller of the session service is a user of the store: the \<^verbatim>\<open>id\<close> of the verified
  identity token, when there is one, is that of a row of \<^verbatim>\<open>users\<close> (and so an \<^verbatim>\<open>INTEGER\<close>).
\<close>

definition known_user :: "store \<Rightarrow> jwt_payload \<Rightarrow> bool" where
  "known_user st user =
     (case req_user_id user of
        None \<Rightarrow> True
      | Some u \<Rightarrow> int4 u = Inr u \<and> filter (\<lambda>w. u_id w = u) (users st) \<noteq> [])"

text \<open>The session token that \<open>issueToken\<close> signs for a caller.\<close>

definition session_token_for :: "libs \<Rightarrow> config \<Rightarrow> tok_env \<Rightarrow> jwt_payload \<Rightarrow> string" where
  "session_token_for L cfg env user =
     jwt_sign L (SessionClaims (req_user_id user) (t_sessionId env)) (jwt_secret cfg)
       (24 * 60 * 60) (t_session_iat env)"

section \<open>Properties of the message proxy\<close>

subsection \<open>The branches of the handler\<close>

lemma sendMessage_bad_request:
  assumes "\<not> js_truthy (map_of req_body ''message'') \<or> \<not> js_truthy (map_of req_body ''sessionToken'')"
  shows "sendMessage L cfg env st user req_body =
           (error_response 400 ''Message and session token required'', st, [])"
  using assms by (simp add: sendMessage_def)

lemma sendMessage_select_rejected:
  assumes "map_of req_body ''message'' = Some m" and "js_truthy (Some m)"
    and "map_of req_body ''sessionToken'' = Some t" and "js_truthy (Some t)"
    and "select_valid_sessions st (pg_param L t) (db_now env) = Inl e"
  shows "sendMessage L cfg env st user req_body =
           (chat_message_error_response L cfg e, st, [DbRead])"
  using assms by (simp add: sendMessage_def)

lemma sendMessage_no_session:
  assumes "map_of req_body ''message'' = Some m" and "js_truthy (Some m)"
    and "map_of req_body ''sessionToken'' = Some t" and "js_truthy (Some t)"
    and "select_valid_sessions st (pg_param L t) (db_now env) = Inr []"
  shows "sendMessage L cfg env st user req_body =
           (error_response 400 ''Invalid or expired session'', st, [DbRead])"
  using assms by (simp add: sendMessage_def)

lemma sendMessage_collab_error:
  assumes "map_of req_body ''message'' = Some m" and "js_truthy (Some m)"
    and "map_of req_body ''sessionToken'' = Some t" and "js_truthy (Some t)"
    and "select_valid_sessions st (pg_param L t) (db_now env) = Inr (session # rest)"
    and "collab env \<lparr>rq_message = m, rq_user_id = req_user_id user, rq_session_token = t\<rparr>
           = CollabError msg dat"
  shows "sendMessage L cfg env st user req_body =
           (python_error_response cfg msg dat, st,
            [DbRead, HttpPost \<lparr>rq_message = m, rq_user_id = req_user_id user,
                               rq_session_token = t\<rparr>])"
  using assms by (simp add: sendMessage_def)

lemma sendMessage_update_rejected:
  assumes "map_of req_body ''message'' = Some m" and "js_truthy (Some m)"
    and "map_of req_body ''sessionToken'' = Some t" and "js_truthy (Some t)"
    and "select_valid_sessions st (pg_param L t) (db_now env) = Inr (session # rest)"
    and "collab env \<lparr>rq_message = m, rq_user_id = req_user_id user, rq_session_token = t\<rparr>
           = CollabOk dat"
    and "update_conversation_log st
           ((case conversation_log session of None \<Rightarrow> [] | Some lg \<Rightarrow> lg) @
            [\<lparr>role = ''user'', content = Some m, timestamp = t_user env\<rparr>,
             \<lparr>role = ''assistant'', content = map_of dat ''response'',
              timestamp = t_assistant env\<rparr>])
           (pg_param L t) = Inl e"
  shows "sendMessage L cfg env st user req_body =
           (chat_message_error_response L cfg e, st,
            [DbRead, HttpPost \<lparr>rq_message = m, rq_user_id = req_user_id user,
                               rq_session_token = t\<rparr>, DbWrite])"
  using assms by (simp add: sendMessage_def)

lemma sendMessage_collab_ok:
  assumes "map_of req_body ''message'' = Some m" and "js_truthy (Some m)"
    and "map_of req_body ''sessionToken'' = Some t" and "js_truthy (Some t)"
    and "select_valid_sessions st (pg_param L t) (db_now env) = Inr (session # rest)"
    and "collab env \<lparr>rq_message = m, rq_user_id = req_user_id user, rq_session_token = t\<rparr>
           = CollabOk dat"
    and "update_conversation_log st
           ((case conversation_log session of None \<Rightarrow> [] | Some lg \<Rightarrow> lg) @
            [\<lparr>role = ''user'', content = Some m, timestamp = t_user env\<rparr>,
             \<lparr>role = ''assistant'', content = map_of dat ''response'',
              timestamp = t_assistant env\<rparr>])
           (pg_param L t) = Inr st'"
  shows "sendMessage L cfg env st user req_body =
           (\<lparr>status = 200, body = JObj dat\<rparr>, st',
            [DbRead, HttpPost \<lparr>rq_message = m, rq_user_id = req_user_id user,
                               rq_session_token = t\<rparr>, DbWrite])"
  using assms by (simp add: sendMessage_def)

lemma chat_message_error_status: "status (chat_message_error_response L cfg e) = 500"
  by (simp add: chat_message_error_response_def)

lemma select_valid_sessions_Inr:
  assumes "select_valid_sessions st tok now = Inr rows"
  shows "\<not> has_zero_byte tok"
    and "rows = filter (\<lambda>r. session_token r = tok \<and> now < expires_at r) (chat_sessions st)"
  using assms by (simp_all add: select_valid_sessions_def pg_text_def split: if_splits)

lemma select_valid_sessions_text:
  assumes "\<not> has_zero_byte tok"
  shows "select_valid_sessions st tok now =
           Inr (filter (\<lambda>r. session_token r = tok \<and> now < expires_at r) (chat_sessions st))"
  using assms by (simp add: select_valid_sessions_def pg_text_def)

lemma update_conversation_log_Inr:
  assumes "update_conversation_log st lg tok = Inr st'"
  shows "st' = set_conversation_log st lg tok"
  using assms
  by (simp add: update_conversation_log_def jsonb_log_def pg_text_def split: if_splits)

lemma sendMessage_success:
  assumes "sendMessage L cfg env st user req_body = (resp, st', tr)" and "status resp = 200"
  obtains m t session rest dat where
    "map_of req_body ''message'' = Some m" "js_truthy (Some m)"
    "map_of req_body ''sessionToken'' = Some t" "js_truthy (Some t)"
    "select_valid_sessions st (pg_param L t) (db_now env) = Inr (session # rest)"
    "collab env \<lparr>rq_message = m, rq_user_id = req_user_id user, rq_session_token = t\<rparr> = CollabOk dat"
    "resp = \<lparr>status = 200, body = JObj dat\<rparr>"
    "st' = set_conversation_log st
             ((case conversation_log session of None \<Rightarrow> [] | Some lg \<Rightarrow> lg) @
              [\<lparr>role = ''user'', content = Some m, timestamp = t_user env\<rparr>,
               \<lparr>role = ''assistant'', content = map_of dat ''response'', timestamp = t_assistant env\<rparr>])
             (pg_param L t)"
    "tr = [DbRead, HttpPost \<lparr>rq_message = m, rq_user_id = req_user_id user, rq_session_token = t\<rparr>, DbWrite]"
proof (cases "js_truthy (map_of req_body ''message'') \<and> js_truthy (map_of req_body ''sessionToken'')")
  case False
  then have "sendMessage L cfg env st user req_body =
           (error_response 400 ''Message and session token required'', st, [])"
    by (intro sendMessage_bad_request) simp
  with assms show ?thesis by (auto simp: error_response_def)
next
  case True
  then obtain m t where mt: "map_of req_body ''message'' = Some m" "js_truthy (Some m)"
      "map_of req_body ''sessionToken'' = Some t" "js_truthy (Some t)"
    by (cases "map_of req_body ''message''"; cases "map_of req_body ''sessionToken''") auto
  show ?thesis
  proof (cases "select_valid_sessions st (pg_param L t) (db_now env)")
    case (Inl e)
    from sendMessage_select_rejected [OF mt Inl] assms show ?thesis
      by (auto simp: chat_message_error_response_def)
  next
    case (Inr rows)
    show ?thesis
    proof (cases rows)
      case Nil
      with Inr have "select_valid_sessions st (pg_param L t) (db_now env) = Inr []" by simp
      from sendMessage_no_session [OF mt this] assms show ?thesis
        by (auto simp: error_response_def)
    next
      case (Cons session rest)
      with Inr have sel: "select_valid_sessions st (pg_param L t) (db_now env)
                            = Inr (session # rest)" by simp
      show ?thesis
      proof (cases "collab env \<lparr>rq_message = m, rq_user_id = req_user_id user, rq_session_token = t\<rparr>")
        case (CollabError msg dat)
        from sendMessage_collab_error [OF mt sel CollabError] assms show ?thesis
          by (auto simp: python_error_response_def)
      next
        case (CollabOk dat)
        let ?lg = "(case conversation_log session of None \<Rightarrow> [] | Some lg \<Rightarrow> lg) @
              [\<lparr>role = ''user'', content = Some m, timestamp = t_user env\<rparr>,
               \<lparr>role = ''assistant'', content = map_of dat ''response'', timestamp = t_assistant env\<rparr>]"
        show ?thesis
        proof (cases "update_conversation_log st ?lg (pg_param L t)")
          case (Inl e)
          from sendMessage_update_rejected [OF mt sel CollabOk Inl] assms show ?thesis
            by (auto simp: chat_message_error_response_def)
        next
          case (Inr st2)
          from sendMessage_collab_ok [OF mt sel CollabOk Inr] assms
          have "resp = \<lparr>status = 200, body = JObj dat\<rparr>" and "st' = st2"
            and "tr = [DbRead, HttpPost \<lparr>rq_message = m, rq_user_id = req_user_id user, rq_session_token = t\<rparr>, DbWrite]"
            by simp_all
          moreover from update_conversation_log_Inr [OF Inr] \<open>st' = st2\<close>
          have "st' = set_conversation_log st ?lg (pg_param L t)" by simp
          ultimately show ?thesis using mt sel CollabOk by (intro that)
        qed
      qed
    qed
  qed
qed

lemma filter_key_distinct:
  "distinct (map f xs) \<Longrightarrow> x \<in> set xs \<Longrightarrow> filter (\<lambda>r. f r = f x) xs = [x]"
proof (induction xs)
  case Nil
  then show ?case by simp
next
  case (Cons a xs)
  show ?case
  proof (cases "a = x")
    case True
    with Cons.prems have "f x \<notin> f ` set xs" by simp
    then have "\<forall>r\<in>set xs. f r \<noteq> f x" by (metis imageI)
    then have "filter (\<lambda>r. f r = f x) xs = []"
      by (simp add: filter_empty_conv)
    with True show ?thesis by simp
  next
    case False
    with Cons.prems have "x \<in> set xs" and "f a \<noteq> f x" by auto
    with Cons show ?thesis by simp
  qed
qed

lemma select_valid_sessions_row:
  assumes "select_valid_sessions st tok now = Inr (session # rest)"
  shows "session \<in> set (chat_sessions st)" and "session_token session = tok" and "now < expires_at session"
proof -
  from select_valid_sessions_Inr(2) [OF assms]
  have "session \<in> set (filter (\<lambda>r. session_token r = tok \<and> now < expires_at r) (chat_sessions st))"
    by (metis list.set_intros(1))
  then show "session \<in> set (chat_sessions st)" and "session_token session = tok" and "now < expires_at session"
    by simp_all
qed


subsection \<open>Unknown and expired session tokens\<close>

text \<open>
  When the session token is text that the store accepts and no session row carries it
  with \<open>expires_at\<close> still in the future, the answer is status 400 with the body
  \<^verbatim>\<open>{error: "Invalid or expired session"}\<close> and the store is left as it was, whether no row
  carries the token or the row that does has expired.
\<close>

lemma sendMessage_no_matching_row:
  assumes "map_of req_body ''message'' = Some m" and "js_truthy (Some m)"
    and "map_of req_body ''sessionToken'' = Some t" and "js_truthy (Some t)"
    and "\<not> has_zero_byte (pg_param L t)"
    and "\<not> (\<exists>r \<in> set (chat_sessions st).
                session_token r = pg_param L t \<and> db_now env < expires_at r)"
  shows "sendMessage L cfg env st user req_body =
           (\<lparr>status = 400, body = JObj [(''error'', JStr ''Invalid or expired session'')]\<rparr>,
            st, [DbRead])"
proof -
  have "select_valid_sessions st (pg_param L t) (db_now env) = Inr []"
    using assms(5,6) by (auto simp: select_valid_sessions_text filter_empty_conv)
  from sendMessage_no_session [OF assms(1-4) this] show ?thesis
    by (simp add: error_response_def)
qed

lemma sendMessage_zero_byte_token:
  assumes "map_of req_body ''message'' = Some m" and "js_truthy (Some m)"
    and "map_of req_body ''sessionToken'' = Some t" and "js_truthy (Some t)"
    and "has_zero_byte (pg_param L t)"
  shows "sendMessage L cfg env st user req_body =
           (chat_message_error_response L cfg InvalidByteSequence, st, [DbRead])"
proof -
  from assms(5) have "select_valid_sessions st (pg_param L t) (db_now env)
                        = Inl InvalidByteSequence"
    by (simp add: select_valid_sessions_def pg_text_def)
  from sendMessage_select_rejected [OF assms(1-4) this] show ?thesis .
qed

text \<open>
  Claim C1 says that every call with a non-empty message and a non-empty session token
  that no session row carries with \<open>expires_at\<close> in the future is answered with status 400
  and \<^verbatim>\<open>Invalid or expired session\<close>, and that a token that never existed cannot be told from
  an expired one. That holds for a token the store accepts as text
  (\<open>sendMessage_no_matching_row\<close>). The handler passes the token to the \<^verbatim>\<open>SELECT\<close> as it came:
  for the token made of the one character U+0000, which is not empty and which no row can
  carry, the statement is rejected and the outer \<^verbatim>\<open>catch\<close> answers 500
  \<^verbatim>\<open>Failed to process chat message\<close>, while another token that was never issued gets 400.
\<close>

theorem sendMessage_zero_byte_token_internal_error:
  "js_truthy (Some (JStr [CHR 0x00]))
   \<and> filter (\<lambda>r. session_token r = [CHR 0x00]) (chat_sessions sample_store) = []
   \<and> sendMessage sample_libs sample_config (sample_msg_env (CollabOk sample_reply)) sample_store
       (sample_user 1) [(''message'', JStr ''hi''), (''sessionToken'', JStr [CHR 0x00])]
     = (\<lparr>status = 500,
         body = JObj [(''error'', JStr ''Failed to process chat message: rejected'')]\<rparr>,
        sample_store, [DbRead])
   \<and> sendMessage sample_libs sample_config (sample_msg_env (CollabOk sample_reply)) sample_store
       (sample_user 1) [(''message'', JStr ''hi''), (''sessionToken'', JStr ''never-issued'')]
     = (\<lparr>status = 400, body = JObj [(''error'', JStr ''Invalid or expired session'')]\<rparr>,
        sample_store, [DbRead])"
proof (intro conjI)
  show "js_truthy (Some (JStr [CHR 0x00]))" by simp
  show "filter (\<lambda>r. session_token r = [CHR 0x00]) (chat_sessions sample_store) = []"
    by (simp add: sample_store_def johns_session_def)
  have "sendMessage sample_libs sample_config (sample_msg_env (CollabOk sample_reply)) sample_store
       (sample_user 1) [(''message'', JStr ''hi''), (''sessionToken'', JStr [CHR 0x00])]
     = (chat_message_error_response sample_libs sample_config InvalidByteSequence,
        sample_store, [DbRead])"
    by (rule sendMessage_zero_byte_token [where m = "JStr ''hi''" and t = "JStr [CHR 0x00]"])
       (simp_all add: pg_param_def has_zero_byte_def)
  then show "sendMessage sample_libs sample_config (sample_msg_env (CollabOk sample_reply))
       sample_store (sample_user 1)
       [(''message'', JStr ''hi''), (''sessionToken'', JStr [CHR 0x00])]
     = (\<lparr>status = 500,
         body = JObj [(''error'', JStr ''Failed to process chat message: rejected'')]\<rparr>,
        sample_store, [DbRead])"
    by (simp add: chat_message_error_response_def sample_libs_def sample_config_def)
  show "sendMessage sample_libs sample_config (sample_msg_env (CollabOk sample_reply))
       sample_store (sample_user 1)
       [(''message'', JStr ''hi''), (''sessionToken'', JStr ''never-issued'')]
     = (\<lparr>status = 400, body = JObj [(''error'', JStr ''Invalid or expired session'')]\<rparr>,
        sample_store, [DbRead])"
    by (rule sendMessage_no_matching_row [where m = "JStr ''hi''" and t = "JStr ''never-issued''"])
       (simp_all add: pg_param_def has_zero_byte_def sample_store_def johns_session_def)
qed

text \<open>So the answer to the token U+0000 is not 400, and differs from that to another unknown token.\<close>

theorem sendMessage_zero_byte_token_internal_error_witness:
  "status (fst (sendMessage sample_libs sample_config (sample_msg_env (CollabOk sample_reply))
                  sample_store (sample_user 1)
                  [(''message'', JStr ''hi''), (''sessionToken'', JStr [CHR 0x00])])) \<noteq> 400
   \<and> fst (sendMessage sample_libs sample_config (sample_msg_env (CollabOk sample_reply))
            sample_store (sample_user 1)
            [(''message'', JStr ''hi''), (''sessionToken'', JStr [CHR 0x00])])
     \<noteq> fst (sendMessage sample_libs sample_config (sample_msg_env (CollabOk sample_reply))
              sample_store (sample_user 1)
              [(''message'', JStr ''hi''), (''sessionToken'', JStr ''never-issued'')])"
  using sendMessage_zero_byte_token_internal_error by simp


lemma hello_exchange:
  "sendMessage sample_libs sample_config (sample_msg_env (CollabOk sample_reply)) sample_store
     (sample_user uid) hello_body =
   (\<lparr>status = 200, body = JObj sample_reply\<rparr>,
    sample_store\<lparr>chat_sessions :=
      [johns_session\<lparr>conversation_log :=
         Some [\<lparr>role = ''user'', content = Some (JStr ''hello''), timestamp = 120\<rparr>,
               \<lparr>role = ''assistant'', content = Some (JStr ''Hi, how can I help?''),
                timestamp = 121\<rparr>]\<rparr>]\<rparr>,
    [DbRead, HttpPost (hello_request (Some uid)), DbWrite])"
  by (simp add: sendMessage_def sample_msg_env_def sample_store_def hello_body_def
        johns_session_def pg_param_def select_valid_sessions_def update_conversation_log_def
        set_conversation_log_def pg_text_def jsonb_log_def entry_has_zero_def has_zero_byte_def
        sample_reply_def hello_request_def req_user_id_def sample_user_def)


text \<open>
  Claim C7. When the session is valid (a row of the store, whose token is therefore text
  without U+0000, carries the token and has not expired) and the call to the collaborator
  fails (whatever makes \<^verbatim>\<open>axios.post\<close> reject: network error, non-2xx status, timeout),
  \<open>sendMessage\<close> answers
  with status 500 and the collaborator's error message, has sent exactly one request to
  the collaborator and no write to the store, and leaves the store, the session row and
  its transcript included, as it was.
\<close>

theorem sendMessage_collaborator_failure:
  assumes "map_of req_body ''message'' = Some m" and "js_truthy (Some m)"
    and "map_of req_body ''sessionToken'' = Some t" and "js_truthy (Some t)"
    and "r \<in> set (chat_sessions st)" and "session_token r = pg_param L t"
    and "\<not> has_zero_byte (session_token r)"
    and "db_now env < expires_at r"
    and "collab env \<lparr>rq_message = m, rq_user_id = req_user_id user, rq_session_token = t\<rparr>
           = CollabError msg dat"
  shows "\<exists>details.
           sendMessage L cfg env st user req_body =
             (\<lparr>status = 500,
               body = JObj ((''error'', JStr (''Python service error: '' @ msg)) # details)\<rparr>,
              st,
              [DbRead, HttpPost \<lparr>rq_message = m, rq_user_id = req_user_id user,
                                 rq_session_token = t\<rparr>])"
proof -
  let ?rows = "filter (\<lambda>x. session_token x = pg_param L t \<and> db_now env < expires_at x)
                 (chat_sessions st)"
  from assms(6,7) have sel: "select_valid_sessions st (pg_param L t) (db_now env) = Inr ?rows"
    by (simp add: select_valid_sessions_text)
  from assms(5,6,8) have "r \<in> set ?rows" by simp
  then obtain session rest where "?rows = session # rest"
    by (cases ?rows) auto
  with sel have "select_valid_sessions st (pg_param L t) (db_now env) = Inr (session # rest)"
    by simp
  from sendMessage_collab_error [OF assms(1-4) this assms(9)] show ?thesis
    by (simp add: python_error_response_def)
qed

text \<open>The collaborator times out on the \<open>hello\<close> of the first user.\<close>

theorem sendMessage_collaborator_failure_witness:
  "johns_session \<in> set (chat_sessions sample_store)
   \<and> \<not> has_zero_byte (session_token johns_session)
   \<and> db_now (sample_msg_env (CollabError ''timeout of 30000ms exceeded'' None))
       < expires_at johns_session
   \<and> (\<exists>details.
        sendMessage sample_libs sample_config
            (sample_msg_env (CollabError ''timeout of 30000ms exceeded'' None))
            sample_store (sample_user 1) hello_body =
          (\<lparr>status = 500,
            body = JObj ((''error'', JStr ''Python service error: timeout of 30000ms exceeded'')
                         # details)\<rparr>,
           sample_store, [DbRead, HttpPost (hello_request (Some 1))]))"
proof -
  let ?env = "sample_msg_env (CollabError ''timeout of 30000ms exceeded'' None)"
  have m: "map_of hello_body ''message'' = Some (JStr ''hello'')"
    and t: "map_of hello_body ''sessionToken'' = Some (JStr ''s1'')"
    by (simp_all add: hello_body_def)
  have row: "johns_session \<in> set (chat_sessions sample_store)"
    and tok: "session_token johns_session = pg_param sample_libs (JStr ''s1'')"
    and clean: "\<not> has_zero_byte (session_token johns_session)"
    and live: "db_now ?env < expires_at johns_session"
    by (simp_all add: sample_store_def johns_session_def pg_param_def sample_msg_env_def
          has_zero_byte_def)
  have fail: "collab ?env \<lparr>rq_message = JStr ''hello'', rq_user_id = req_user_id (sample_user 1),
                rq_session_token = JStr ''s1''\<rparr>
              = CollabError ''timeout of 30000ms exceeded'' None"
    by (simp add: sample_msg_env_def)
  from sendMessage_collaborator_failure [OF m _ t _ row tok clean live fail] row clean live
  show ?thesis
    by (simp add: hello_request_def req_user_id_def sample_user_def)
qed

text \<open>
  Claim C9. \<open>sendMessage\<close> finds the session by its token alone and never reads the
  \<open>user_id\<close> of the row: two authenticated callers who present the same body get the same
  response and leave the same store, as long as the collaborator (which is told the
  caller's id) answers both alike. The identity of the caller reaches nothing but the
  forwarded request, so a caller who is not the owner of the session appends to it.
\<close>

theorem sendMessage_any_caller:
  assumes "map_of req_body ''message'' = Some m" and "map_of req_body ''sessionToken'' = Some t"
    and "collab env \<lparr>rq_message = m, rq_user_id = req_user_id userA, rq_session_token = t\<rparr>
       = collab env \<lparr>rq_message = m, rq_user_id = req_user_id userB, rq_session_token = t\<rparr>"
  shows "fst (sendMessage L cfg env st userA req_body) = fst (sendMessage L cfg env st userB req_body)
       \<and> fst (snd (sendMessage L cfg env st userA req_body))
           = fst (snd (sendMessage L cfg env st userB req_body))"
proof (cases "js_truthy (Some m) \<and> js_truthy (Some t)")
  case False
  with assms(1,2) have "\<not> js_truthy (map_of req_body ''message'')
      \<or> \<not> js_truthy (map_of req_body ''sessionToken'')" by auto
  then show ?thesis by (simp add: sendMessage_bad_request)
next
  case True
  then have mt: "map_of req_body ''message'' = Some m" "js_truthy (Some m)"
      "map_of req_body ''sessionToken'' = Some t" "js_truthy (Some t)"
    using assms(1,2) by simp_all
  show ?thesis
  proof (cases "select_valid_sessions st (pg_param L t) (db_now env)")
    case (Inl e)
    show ?thesis by (simp add: sendMessage_select_rejected [OF mt Inl])
  next
    case (Inr rows)
    show ?thesis
    proof (cases rows)
      case Nil
      with Inr have "select_valid_sessions st (pg_param L t) (db_now env) = Inr []" by simp
      then show ?thesis by (simp add: sendMessage_no_session [OF mt])
    next
      case (Cons session rest)
      with Inr have sel: "select_valid_sessions st (pg_param L t) (db_now env)
                            = Inr (session # rest)" by simp
      show ?thesis
      proof (cases "collab env \<lparr>rq_message = m, rq_user_id = req_user_id userA,
                      rq_session_token = t\<rparr>")
        case (CollabError msg dat)
        with assms(3) have "collab env \<lparr>rq_message = m, rq_user_id = req_user_id userB,
                              rq_session_token = t\<rparr> = CollabError msg dat"
          by simp
        from sendMessage_collab_error [OF mt sel CollabError]
          sendMessage_collab_error [OF mt sel this]
        show ?thesis by simp
      next
        case (CollabOk dat)
        with assms(3) have okB: "collab env \<lparr>rq_message = m, rq_user_id = req_user_id userB,
                              rq_session_token = t\<rparr> = CollabOk dat"
          by simp
        let ?lg = "(case conversation_log session of None \<Rightarrow> [] | Some lg \<Rightarrow> lg) @
              [\<lparr>role = ''user'', content = Some m, timestamp = t_user env\<rparr>,
               \<lparr>role = ''assistant'', content = map_of dat ''response'',
                timestamp = t_assistant env\<rparr>]"
        show ?thesis
        proof (cases "update_conversation_log st ?lg (pg_param L t)")
          case (Inl e)
          from sendMessage_update_rejected [OF mt sel CollabOk Inl]
            sendMessage_update_rejected [OF mt sel okB Inl]
          show ?thesis by simp
        next
          case (Inr st2)
          from sendMessage_collab_ok [OF mt sel CollabOk Inr]
            sendMessage_collab_ok [OF mt sel okB Inr]
          show ?thesis by simp
        qed
      qed
    qed
  qed
qed

lemma set_conversation_log_frame:
  "users (set_conversation_log st lg tok) = users st"
  "users_id_seq (set_conversation_log st lg tok) = users_id_seq st"
  "chat_sessions_id_seq (set_conversation_log st lg tok) = chat_sessions_id_seq st"
  "length (chat_sessions (set_conversation_log st lg tok)) = length (chat_sessions st)"
  by (simp_all add: set_conversation_log_def)

lemma set_conversation_log_row:
  assumes "i < length (chat_sessions st)"
  shows "chat_sessions (set_conversation_log st lg tok) ! i =
           (if session_token (chat_sessions st ! i) = tok
            then (chat_sessions st ! i)\<lparr>conversation_log := Some lg\<rparr>
            else chat_sessions st ! i)"
  using assms by (simp add: set_conversation_log_def)

text \<open>
  Claim C10. A successful \<open>sendMessage\<close> rewrites only the \<open>conversation_log\<close> of the one
  session row that carries the token: the users table and both sequences are unchanged, no
  session row is added or removed, every row keeps its \<open>id\<close>, \<open>user_id\<close>, \<open>session_token\<close>,
  \<open>created_at\<close>, \<open>updated_at\<close> and \<open>expires_at\<close>, and a row with another token is unchanged
  altogether. In particular neither the validity window nor \<open>updated_at\<close> moves.
\<close>

theorem sendMessage_frame:
  assumes "sendMessage L cfg env st user req_body = (resp, st', tr)" and "status resp = 200"
    and "map_of req_body ''sessionToken'' = Some t" and "unique_session_tokens st"
  shows "users st' = users st \<and> users_id_seq st' = users_id_seq st
       \<and> chat_sessions_id_seq st' = chat_sessions_id_seq st
       \<and> length (chat_sessions st') = length (chat_sessions st)
       \<and> length (filter (\<lambda>r. session_token r = pg_param L t) (chat_sessions st)) = 1
       \<and> (\<forall>i < length (chat_sessions st).
            cs_id (chat_sessions st' ! i) = cs_id (chat_sessions st ! i)
          \<and> user_id (chat_sessions st' ! i) = user_id (chat_sessions st ! i)
          \<and> session_token (chat_sessions st' ! i) = session_token (chat_sessions st ! i)
          \<and> created_at (chat_sessions st' ! i) = created_at (chat_sessions st ! i)
          \<and> updated_at (chat_sessions st' ! i) = updated_at (chat_sessions st ! i)
          \<and> expires_at (chat_sessions st' ! i) = expires_at (chat_sessions st ! i)
          \<and> (session_token (chat_sessions st ! i) \<noteq> pg_param L t
               \<longrightarrow> chat_sessions st' ! i = chat_sessions st ! i))"
proof -
  from assms(1,2) obtain t' session rest lg where s:
    "map_of req_body ''sessionToken'' = Some t'"
    "select_valid_sessions st (pg_param L t') (db_now env) = Inr (session # rest)"
    "st' = set_conversation_log st lg (pg_param L t')"
    by (rule sendMessage_success) blast
  from s(1) assms(3) have eq: "t' = t" by simp
  note row = select_valid_sessions_row [OF s(2)]
  have one: "length (filter (\<lambda>r. session_token r = pg_param L t) (chat_sessions st)) = 1"
    using filter_key_distinct [of session_token "chat_sessions st" session] assms(4) row(1,2) eq
    by (simp add: unique_session_tokens_def)
  show ?thesis
    using one by (simp add: s(3) eq set_conversation_log_frame set_conversation_log_row)
qed

text \<open>
  The second user appends to the session of the first: same response, same store as when
  the owner sends the message.
\<close>

theorem sendMessage_any_caller_witness:
  "user_id johns_session = Some 1 \<and> req_user_id (sample_user 2) = Some 2
   \<and> fst (sendMessage sample_libs sample_config (sample_msg_env (CollabOk sample_reply))
             sample_store (sample_user 1) hello_body)
       = fst (sendMessage sample_libs sample_config (sample_msg_env (CollabOk sample_reply))
                sample_store (sample_user 2) hello_body)
   \<and> fst (snd (sendMessage sample_libs sample_config (sample_msg_env (CollabOk sample_reply))
                  sample_store (sample_user 1) hello_body))
       = fst (snd (sendMessage sample_libs sample_config (sample_msg_env (CollabOk sample_reply))
                     sample_store (sample_user 2) hello_body))
   \<and> status (fst (sendMessage sample_libs sample_config (sample_msg_env (CollabOk sample_reply))
                     sample_store (sample_user 2) hello_body)) = 200
   \<and> transcript_of
       (fst (snd (sendMessage sample_libs sample_config (sample_msg_env (CollabOk sample_reply))
                    sample_store (sample_user 2) hello_body))) ''s1''
       = Some [\<lparr>role = ''user'', content = Some (JStr ''hello''), timestamp = 120\<rparr>,
               \<lparr>role = ''assistant'', content = Some (JStr ''Hi, how can I help?''),
                timestamp = 121\<rparr>]"
proof -
  let ?env = "sample_msg_env (CollabOk sample_reply)"
  have m: "map_of hello_body ''message'' = Some (JStr ''hello'')"
    and t: "map_of hello_body ''sessionToken'' = Some (JStr ''s1'')"
    by (simp_all add: hello_body_def)
  have same: "collab ?env \<lparr>rq_message = JStr ''hello'', rq_user_id = req_user_id (sample_user 1),
                 rq_session_token = JStr ''s1''\<rparr>
            = collab ?env \<lparr>rq_message = JStr ''hello'', rq_user_id = req_user_id (sample_user 2),
                 rq_session_token = JStr ''s1''\<rparr>"
    by (simp add: sample_msg_env_def)
  have owner: "user_id johns_session = Some 1" by (simp add: johns_session_def)
  have caller: "req_user_id (sample_user 2) = Some 2"
    by (simp add: req_user_id_def sample_user_def)
  have appended: "status (fst (sendMessage sample_libs sample_config ?env
                     sample_store (sample_user 2) hello_body)) = 200"
    "transcript_of (fst (snd (sendMessage sample_libs sample_config ?env
                    sample_store (sample_user 2) hello_body))) ''s1''
       = Some [\<lparr>role = ''user'', content = Some (JStr ''hello''), timestamp = 120\<rparr>,
               \<lparr>role = ''assistant'', content = Some (JStr ''Hi, how can I help?''),
                timestamp = 121\<rparr>]"
    by (simp_all add: hello_exchange transcript_of_def johns_session_def)
  from sendMessage_any_caller [OF m t same, of sample_libs sample_config sample_store]
    owner caller appended
  show ?thesis by simp
qed

text \<open>After the \<open>hello\<close> of the first user, the sample session still expires at 1000.\<close>

theorem sendMessage_frame_witness:
  "status (fst (sendMessage sample_libs sample_config (sample_msg_env (CollabOk sample_reply))
                  sample_store (sample_user 1) hello_body)) = 200
   \<and> unique_session_tokens sample_store
   \<and> users (fst (snd (sendMessage sample_libs sample_config
                         (sample_msg_env (CollabOk sample_reply)) sample_store (sample_user 1)
                         hello_body))) = [john, jane]
   \<and> updated_at (chat_sessions (fst (snd (sendMessage sample_libs sample_config
                         (sample_msg_env (CollabOk sample_reply)) sample_store (sample_user 1)
                         hello_body))) ! 0) = 10
   \<and> expires_at (chat_sessions (fst (snd (sendMessage sample_libs sample_config
                         (sample_msg_env (CollabOk sample_reply)) sample_store (sample_user 1)
                         hello_body))) ! 0) = 1000"
proof -
  let ?env = "sample_msg_env (CollabOk sample_reply)"
  let ?run = "sendMessage sample_libs sample_config ?env sample_store (sample_user 1) hello_body"
  have run: "?run = (fst ?run, fst (snd ?run), snd (snd ?run))" by simp
  have ok: "status (fst ?run) = 200" by (simp add: hello_exchange)
  have uniq: "unique_session_tokens sample_store"
    by (simp add: unique_session_tokens_def sample_store_def)
  have t: "map_of hello_body ''sessionToken'' = Some (JStr ''s1'')"
    by (simp add: hello_body_def)
  have len: "0 < length (chat_sessions sample_store)" by (simp add: sample_store_def)
  have old: "users sample_store = [john, jane]" "updated_at (chat_sessions sample_store ! 0) = 10"
    "expires_at (chat_sessions sample_store ! 0) = 1000"
    by (simp_all add: sample_store_def johns_session_def)
  from sendMessage_frame [OF run ok t uniq] len old ok uniq
  show ?thesis by auto
qed

section \<open>Properties of registration and login\<close>

subsection \<open>Validation\<close>

lemma joi_string_Inr:
  assumes "joi_string k ok e v = Inr s"
  shows "v = Some (JStr s)" and "s \<noteq> []" and "ok s"
proof -
  from assms obtain x where v: "v = Some x" by (cases v) (simp_all add: joi_string_def)
  from assms v obtain s' where x: "x = JStr s'" by (cases x) (simp_all add: joi_string_def)
  from assms v x show "v = Some (JStr s)" and "s \<noteq> []" and "ok s"
    by (simp_all add: joi_string_def split: if_splits)
qed

lemma userSchema_validate_Inr:
  assumes "userSchema_validate L req_body = Inr v"
  shows "map_of req_body ''email'' = Some (JStr (email v))"
    and "map_of req_body ''password'' = Some (JStr (password v))"
    and "map_of req_body ''first_name'' = Some (JStr (first_name v))"
    and "map_of req_body ''last_name'' = Some (JStr (last_name v))"
    and "joi_email L (email v)" and "6 \<le> length (password v)"
    and "first_name v \<noteq> []" and "last_name v \<noteq> []"
proof -
  from assms obtain em where 1:
    "joi_string ''email'' (joi_email L) (StringEmail ''email'') (map_of req_body ''email'') = Inr em"
    by (cases "joi_string ''email'' (joi_email L) (StringEmail ''email'') (map_of req_body ''email'')")
       (simp_all add: userSchema_validate_def)
  from assms 1 obtain pw where 2:
    "joi_string ''password'' (\<lambda>s. 6 \<le> length s) (StringMin ''password'')
       (map_of req_body ''password'') = Inr pw"
    by (cases "joi_string ''password'' (\<lambda>s. 6 \<le> length s) (StringMin ''password'')
                 (map_of req_body ''password'')")
       (simp_all add: userSchema_validate_def)
  from assms 1 2 obtain fn where 3:
    "joi_string ''first_name'' (\<lambda>s. True) (StringBase ''first_name'')
       (map_of req_body ''first_name'') = Inr fn"
    by (cases "joi_string ''first_name'' (\<lambda>s. True) (StringBase ''first_name'')
                 (map_of req_body ''first_name'')")
       (simp_all add: userSchema_validate_def)
  from assms 1 2 3 obtain ln where 4:
    "joi_string ''last_name'' (\<lambda>s. True) (StringBase ''last_name'')
       (map_of req_body ''last_name'') = Inr ln"
    by (cases "joi_string ''last_name'' (\<lambda>s. True) (StringBase ''last_name'')
                 (map_of req_body ''last_name'')")
       (simp_all add: userSchema_validate_def)
  from assms 1 2 3 4 have v: "v = \<lparr>email = em, password = pw, first_name = fn, last_name = ln\<rparr>"
    by (simp add: userSchema_validate_def split: list.splits)
  from joi_string_Inr [OF 1] joi_string_Inr [OF 2] joi_string_Inr [OF 3] joi_string_Inr [OF 4] v
  show "map_of req_body ''email'' = Some (JStr (email v))"
    and "map_of req_body ''password'' = Some (JStr (password v))"
    and "map_of req_body ''first_name'' = Some (JStr (first_name v))"
    and "map_of req_body ''last_name'' = Some (JStr (last_name v))"
    and "joi_email L (email v)" and "6 \<le> length (password v)"
    and "first_name v \<noteq> []" and "last_name v \<noteq> []"
    by simp_all
qed

lemma userSchema_validate_constraints:
  assumes "userSchema_validate L req_body = Inr v"
  shows "input_constraints L req_body"
  using userSchema_validate_Inr [OF assms]
  by (simp add: input_constraints_def string_member_def)

text \<open>
  Claim C8. A registration whose input violates one of the constraints (email of valid
  shape, password of at least six characters, first and last name non-empty) is answered
  with status 400 and the message of the first validation error, before the store is
  looked at: no user is persisted. Conversely a registration that is not answered with 400
  met all of them.
\<close>

theorem register_validation:
  "(\<not> input_constraints L req_body \<longrightarrow>
      (\<exists>e. register L env st req_body =
              (\<lparr>status = 400, body = JObj [(''error'', JStr (joi_message e))]\<rparr>, st, [])))
   \<and> (status (fst (register L env st req_body)) \<noteq> 400 \<longrightarrow> input_constraints L req_body)"
proof -
  have rej: "\<exists>e. register L env st req_body =
              (\<lparr>status = 400, body = JObj [(''error'', JStr (joi_message e))]\<rparr>, st, [])"
    if "\<not> input_constraints L req_body"
  proof (cases "userSchema_validate L req_body")
    case (Inl e)
    then show ?thesis by (auto simp: register_def error_response_def)
  next
    case (Inr v)
    with that userSchema_validate_constraints show ?thesis by blast
  qed
  then have "input_constraints L req_body" if "status (fst (register L env st req_body)) \<noteq> 400"
    using that by force
  with rej show ?thesis by blast
qed

text \<open>A password of five characters is refused; \<open>secret1\<close> is accepted.\<close>

lemma five_char_password:
  "\<not> input_constraints sample_libs (registration ''alice@example.com'' (JStr ''12345'') ''Alice'')"
  by (simp add: input_constraints_def string_member_def registration_def sample_libs_def)

lemma alice_valid:
  "userSchema_validate sample_libs (registration ''alice@example.com'' (JStr ''secret1'') ''Alice'')
     = Inr \<lparr>email = ''alice@example.com'', password = ''secret1'', first_name = ''Alice'', last_name = ''A''\<rparr>"
  by (simp add: userSchema_validate_def joi_string_def registration_def sample_libs_def)

lemma alice_registered:
  "register sample_libs sample_reg_env sample_store
     (registration ''alice@example.com'' (JStr ''secret1'') ''Alice'') =
   (\<lparr>status = 201,
     body = JObj [(''message'', JStr ''User registered successfully''),
                  (''user'', JObj [(''id'', JNum 3), (''email'', JStr ''alice@example.com''),
                                   (''first_name'', JStr ''Alice''), (''last_name'', JStr ''A'')])]\<rparr>,
    sample_store\<lparr>users := [john, jane,
        \<lparr>u_id = 3, u_email = ''alice@example.com'', u_password_hash = ''saltsecret1'',
         u_first_name = Some ''Alice'', u_last_name = Some ''A'', u_phone = None,
         u_created_at = 50, u_updated_at = 50\<rparr>], users_id_seq := 3\<rparr>,
    [DbRead, DbWrite])"
  unfolding register_def alice_valid
  by (simp add: select_user_ids_by_email_def sample_store_def john_def
        jane_def insert_user_def varchar_def sample_reg_env_def sample_libs_def public_user_def
        json_text_def Let_def pg_text_def has_zero_byte_def)

theorem register_validation_witness:
  "\<not> input_constraints sample_libs (registration ''alice@example.com'' (JStr ''12345'') ''Alice'')
   \<and> (\<exists>e. register sample_libs sample_reg_env sample_store
             (registration ''alice@example.com'' (JStr ''12345'') ''Alice'') =
              (\<lparr>status = 400, body = JObj [(''error'', JStr (joi_message e))]\<rparr>, sample_store, []))
   \<and> status (fst (register sample_libs sample_reg_env sample_store
                    (registration ''alice@example.com'' (JStr ''secret1'') ''Alice''))) \<noteq> 400
   \<and> input_constraints sample_libs (registration ''alice@example.com'' (JStr ''secret1'') ''Alice'')"
  using register_validation [of sample_libs "registration ''alice@example.com'' (JStr ''12345'') ''Alice''"
          sample_reg_env sample_store]
        register_validation [of sample_libs "registration ''alice@example.com'' (JStr ''secret1'') ''Alice''"
          sample_reg_env sample_store]
        five_char_password
  by (simp add: alice_registered)



subsection \<open>Registration against the store\<close>

lemma register_conflict:
  assumes "userSchema_validate L req_body = Inr v"
    and "u \<in> set (users st)" and "u_email u = email v"
    and "\<not> has_zero_byte (email v)"
  shows "register L env st req_body =
           (\<lparr>status = 409, body = JObj [(''error'', JStr ''User already exists'')]\<rparr>, st, [DbRead])"
proof -
  from assms(2,3) have "u \<in> set (filter (\<lambda>w. u_email w = email v) (users st))" by simp
  then have "filter (\<lambda>w. u_email w = email v) (users st) \<noteq> []"
    by (metis empty_iff list.set(1))
  with assms(4) obtain ids where "select_user_ids_by_email st (email v) = Inr ids" "ids \<noteq> []"
    by (simp add: select_user_ids_by_email_def pg_text_def)
  with assms(1) show ?thesis by (simp add: register_def error_response_def)
qed

lemma insert_user_fits:
  assumes "length em \<le> 255" and "length fn \<le> 100" and "length ln \<le> 100"
    and "filter (\<lambda>u. u_email u = em) (users st) = []"
    and "\<not> has_zero_byte em" and "\<not> has_zero_byte hashed"
    and "\<not> has_zero_byte fn" and "\<not> has_zero_byte ln"
  shows "insert_user st now em hashed fn ln =
           Inr (\<lparr>u_id = users_id_seq st + 1, u_email = em, u_password_hash = hashed,
                 u_first_name = Some fn, u_last_name = Some ln, u_phone = None,
                 u_created_at = now, u_updated_at = now\<rparr>,
                st\<lparr>users := users st @
                     [\<lparr>u_id = users_id_seq st + 1, u_email = em, u_password_hash = hashed,
                       u_first_name = Some fn, u_last_name = Some ln, u_phone = None,
                       u_created_at = now, u_updated_at = now\<rparr>],
                   users_id_seq := users_id_seq st + 1\<rparr>)"
  using assms by (simp add: insert_user_def varchar_def Let_def)

lemma register_created:
  assumes "userSchema_validate L req_body = Inr v"
    and "filter (\<lambda>u. u_email u = email v) (users st) = []"
    and "length (email v) \<le> 255" and "length (first_name v) \<le> 100"
    and "length (last_name v) \<le> 100"
    and "\<not> has_zero_byte (email v)"
    and "\<not> has_zero_byte (bcrypt_hash L (password v) (salt env))"
    and "\<not> has_zero_byte (first_name v)" and "\<not> has_zero_byte (last_name v)"
  shows "register L env st req_body =
           (\<lparr>status = 201,
             body = JObj [(''message'', JStr ''User registered successfully''),
                          (''user'', JObj [(''id'', JNum (users_id_seq st + 1)),
                                           (''email'', JStr (email v)),
                                           (''first_name'', JStr (first_name v)),
                                           (''last_name'', JStr (last_name v))])]\<rparr>,
            st\<lparr>users := users st @
                 [\<lparr>u_id = users_id_seq st + 1, u_email = email v,
                   u_password_hash = bcrypt_hash L (password v) (salt env),
                   u_first_name = Some (first_name v), u_last_name = Some (last_name v),
                   u_phone = None, u_created_at = reg_db_now env,
                   u_updated_at = reg_db_now env\<rparr>],
               users_id_seq := users_id_seq st + 1\<rparr>,
            [DbRead, DbWrite])"
  using assms(1,2,6) insert_user_fits [OF assms(3,4,5) assms(2) assms(6,7,8,9)]
  by (simp add: register_def select_user_ids_by_email_def pg_text_def public_user_def
        json_text_def)

lemma long_name_valid:
  "userSchema_validate sample_libs
     (registration ''alice@example.com'' (JStr ''secret1'') (replicate 101 (CHR ''A'')))
   = Inr \<lparr>email = ''alice@example.com'', password = ''secret1'',
           first_name = replicate 101 (CHR ''A''), last_name = ''A''\<rparr>"
proof -
  have "replicate 101 (CHR ''A'') \<noteq> []" by (simp add: replicate_empty)
  then show ?thesis
    by (simp add: userSchema_validate_def joi_string_def registration_def sample_libs_def)
qed

lemma varchar_long_name: "varchar 100 (replicate 101 (CHR ''A'')) = Inl (ValueTooLong 100)"
proof -
  have "drop 100 (replicate 101 (CHR ''A'')) = [CHR ''A'']"
    by (simp add: numeral_eq_Suc)
  then show ?thesis by (simp add: varchar_def)
qed

text \<open>
  Claim C5 says that a registration whose input passes validation and whose email is new
  persists the user and is answered with status 201 (and, as \<open>register_conflict\<close> shows for
  the other half, with 409 and an unchanged store when the email exists). The schema puts
  no upper bound on the names, while the columns \<^verbatim>\<open>first_name\<close> and \<^verbatim>\<open>last_name\<close> are
  \<^verbatim>\<open>VARCHAR(100)\<close>: a first name of 101 characters passes validation, the email is new, the
  \<^verbatim>\<open>INSERT\<close> is rejected, and the handler answers 500 \<^verbatim>\<open>Internal server error\<close> with nothing
  persisted. Within the limits of the columns the claim holds (\<open>register_created\<close>).
\<close>

theorem register_long_name_internal_error:
  "input_constraints sample_libs
     (registration ''alice@example.com'' (JStr ''secret1'') (replicate 101 (CHR ''A'')))
   \<and> select_user_ids_by_email sample_store ''alice@example.com'' = Inr []
   \<and> register sample_libs sample_reg_env sample_store
       (registration ''alice@example.com'' (JStr ''secret1'') (replicate 101 (CHR ''A'')))
     = (\<lparr>status = 500, body = JObj [(''error'', JStr ''Internal server error'')]\<rparr>,
        sample_store, [DbRead, DbWrite])"
proof (intro conjI)
  show "input_constraints sample_libs
     (registration ''alice@example.com'' (JStr ''secret1'') (replicate 101 (CHR ''A'')))"
    using long_name_valid by (rule userSchema_validate_constraints)
  show none: "select_user_ids_by_email sample_store ''alice@example.com'' = Inr []"
    by (simp add: select_user_ids_by_email_def pg_text_def has_zero_byte_def sample_store_def
          john_def jane_def)
  have "insert_user sample_store 50 ''alice@example.com'' ''saltsecret1''
          (replicate 101 (CHR ''A'')) ''A'' = Inl (ValueTooLong 100)"
    by (simp add: insert_user_def varchar_long_name has_zero_byte_def)
       (simp add: varchar_def)
  then show "register sample_libs sample_reg_env sample_store
       (registration ''alice@example.com'' (JStr ''secret1'') (replicate 101 (CHR ''A'')))
     = (\<lparr>status = 500, body = JObj [(''error'', JStr ''Internal server error'')]\<rparr>,
        sample_store, [DbRead, DbWrite])"
    unfolding register_def long_name_valid
    by (simp add: none error_response_def sample_reg_env_def sample_libs_def)
qed

text \<open>So the answer is not 201 and the users table is as before.\<close>

theorem register_long_name_internal_error_witness:
  "status (fst (register sample_libs sample_reg_env sample_store
             (registration ''alice@example.com'' (JStr ''secret1'') (replicate 101 (CHR ''A'')))))
     \<noteq> 201
   \<and> users (fst (snd (register sample_libs sample_reg_env sample_store
             (registration ''alice@example.com'' (JStr ''secret1'') (replicate 101 (CHR ''A''))))))
     = [john, jane]"
  using register_long_name_internal_error by (simp add: sample_store_def)

subsection \<open>Login\<close>

lemma login_unknown_email:
  assumes "map_of req_body ''email'' = Some e" and "js_truthy (Some e)"
    and "map_of req_body ''password'' = Some p" and "js_truthy (Some p)"
    and "\<not> has_zero_byte (pg_param L e)"
    and "filter (\<lambda>u. u_email u = pg_param L e) (users st) = []"
  shows "login L cfg now st req_body =
           (\<lparr>status = 401, body = JObj [(''error'', JStr ''Invalid credentials'')]\<rparr>, st, [DbRead])"
  using assms
  by (simp add: login_def select_users_by_email_def pg_text_def error_response_def)

lemma login_wrong_password:
  assumes "map_of req_body ''email'' = Some e" and "js_truthy (Some e)"
    and "map_of req_body ''password'' = Some (JStr p)" and "p \<noteq> []"
    and "\<not> has_zero_byte (pg_param L e)"
    and "filter (\<lambda>u. u_email u = pg_param L e) (users st) = user # rest"
    and "\<not> bcrypt_compare L p (u_password_hash user)"
  shows "login L cfg now st req_body =
           (\<lparr>status = 401, body = JObj [(''error'', JStr ''Invalid credentials'')]\<rparr>, st, [DbRead])"
  using assms
  by (simp add: login_def select_users_by_email_def pg_text_def error_response_def
        bcrypt_compare_call_def)

lemma login_password_not_a_string:
  assumes "map_of req_body ''email'' = Some e" and "js_truthy (Some e)"
    and "map_of req_body ''password'' = Some p" and "js_truthy (Some p)"
    and "\<forall>s. p \<noteq> JStr s"
    and "\<not> has_zero_byte (pg_param L e)"
    and "filter (\<lambda>u. u_email u = pg_param L e) (users st) = user # rest"
  shows "login L cfg now st req_body =
           (\<lparr>status = 500, body = JObj [(''error'', JStr ''Internal server error'')]\<rparr>, st, [DbRead])"
proof -
  from assms(5) have "bcrypt_compare_call L p (u_password_hash user) = Inl IllegalArguments"
    by (cases p) (simp_all add: bcrypt_compare_call_def)
  with assms show ?thesis
    by (simp add: login_def select_users_by_email_def pg_text_def error_response_def)
qed

text \<open>
  Claim C4 says that a login with a registered email and a wrong password and a login with
  an unregistered email get the same answer, 401 \<^verbatim>\<open>Invalid credentials\<close>. That holds when the
  password is a string (\<open>login_wrong_password\<close>, \<open>login_unknown_email\<close>). The handler checks
  the members of the body for truthiness only, so the password may be any JSON value; for
  one that is not a string, \<^verbatim>\<open>bcrypt.compare\<close> rejects, and the answer is 500
  \<^verbatim>\<open>Internal server error\<close> when the email is registered, but 401 when it is not: the two
  answers tell a registered email from an unregistered one.
\<close>

theorem login_numeric_password_tells_registered:
  "filter (\<lambda>u. u_email u = ''john.doe@example.com'') (users sample_store) = [john]
   \<and> login sample_libs sample_config 0 sample_store (credentials ''john.doe@example.com'' (JNum 1))
     = (\<lparr>status = 500, body = JObj [(''error'', JStr ''Internal server error'')]\<rparr>,
        sample_store, [DbRead])
   \<and> filter (\<lambda>u. u_email u = ''nobody@example.com'') (users sample_store) = []
   \<and> login sample_libs sample_config 0 sample_store (credentials ''nobody@example.com'' (JNum 1))
     = (\<lparr>status = 401, body = JObj [(''error'', JStr ''Invalid credentials'')]\<rparr>,
        sample_store, [DbRead])"
proof (intro conjI)
  show known: "filter (\<lambda>u. u_email u = ''john.doe@example.com'') (users sample_store) = [john]"
    by (simp add: sample_store_def john_def jane_def)
  show unknown: "filter (\<lambda>u. u_email u = ''nobody@example.com'') (users sample_store) = []"
    by (simp add: sample_store_def john_def jane_def)
  show "login sample_libs sample_config 0 sample_store (credentials ''john.doe@example.com'' (JNum 1))
     = (\<lparr>status = 500, body = JObj [(''error'', JStr ''Internal server error'')]\<rparr>,
        sample_store, [DbRead])"
    by (rule login_password_not_a_string [where e = "JStr ''john.doe@example.com''" and p = "JNum 1"
          and user = john and rest = "[]"])
       (simp_all add: credentials_def pg_param_def known has_zero_byte_def)
  show "login sample_libs sample_config 0 sample_store (credentials ''nobody@example.com'' (JNum 1))
     = (\<lparr>status = 401, body = JObj [(''error'', JStr ''Invalid credentials'')]\<rparr>,
        sample_store, [DbRead])"
    by (rule login_unknown_email [where e = "JStr ''nobody@example.com''" and p = "JNum 1"])
       (simp_all add: credentials_def pg_param_def unknown has_zero_byte_def)
qed

text \<open>So the two responses differ.\<close>

theorem login_numeric_password_tells_registered_witness:
  "fst (login sample_libs sample_config 0 sample_store
          (credentials ''john.doe@example.com'' (JNum 1)))
     \<noteq> fst (login sample_libs sample_config 0 sample_store
              (credentials ''nobody@example.com'' (JNum 1)))"
  using login_numeric_password_tells_registered by simp

section \<open>Properties of the session service\<close>

lemma issueToken_unfold:
  "issueToken L cfg env st user =
     (case upsert_chat_session st (tok_db_now env) (req_user_id user)
             (session_token_for L cfg env user) (Some [])
             (t_expiry env + 24 * 60 * 60 * 1000) of
        Inl e \<Rightarrow>
          (error_response 500 (''Failed to generate chatbot token: '' @ pg_error_message L e),
           st, [DbWrite])
      | Inr st' \<Rightarrow>
          (\<lparr>status = 200,
            body = JObj [(''chatToken'',
                          JStr (jwt_sign L (ChatbotClaims (req_user_id user) ''chatbot'')
                                  (jwt_secret cfg) (15 * 60) (t_chat_iat env))),
                         (''sessionToken'', JStr (session_token_for L cfg env user))]\<rparr>,
           st', [DbWrite]))"
  by (simp add: issueToken_def session_token_for_def Let_def split: sum.split)

lemma issueToken_trace: "snd (snd (issueToken L cfg env st user)) = [DbWrite]"
  by (simp add: issueToken_unfold split: sum.split)

lemma known_user_cases:
  assumes "known_user st user"
  obtains (anonymous) "req_user_id user = None"
  | (row) u where "req_user_id user = Some u" "int4 u = Inr u"
      "filter (\<lambda>w. u_id w = u) (users st) \<noteq> []"
  using assms by (cases "req_user_id user") (auto simp: known_user_def)

lemma upsert_chat_session_known:
  assumes "known_user st user" and "length tok \<le> 255"
  shows "upsert_chat_session st now (req_user_id user) tok lg expires =
           Inr (if filter (\<lambda>r. session_token r = tok) (chat_sessions st) \<noteq> []
                then st\<lparr>chat_sessions :=
                          map (\<lambda>r. if session_token r = tok then r\<lparr>updated_at := now\<rparr> else r)
                              (chat_sessions st),
                        chat_sessions_id_seq := chat_sessions_id_seq st + 1\<rparr>
                else st\<lparr>chat_sessions := chat_sessions st @
                          [\<lparr>cs_id = chat_sessions_id_seq st + 1, user_id = req_user_id user,
                            session_token = tok, conversation_log = lg,
                            created_at = now, updated_at = now, expires_at = expires\<rparr>],
                        chat_sessions_id_seq := chat_sessions_id_seq st + 1\<rparr>)"
  using assms(1)
proof (cases rule: known_user_cases)
  case anonymous
  with assms(2) show ?thesis by (simp add: upsert_chat_session_def varchar_def)
next
  case (row u)
  with assms(2) show ?thesis by (simp add: upsert_chat_session_def varchar_def)
qed

lemma issueToken_known:
  assumes "known_user st user" and "length (session_token_for L cfg env user) \<le> 255"
  shows "issueToken L cfg env st user =
           (\<lparr>status = 200,
             body = JObj [(''chatToken'',
                           JStr (jwt_sign L (ChatbotClaims (req_user_id user) ''chatbot'')
                                   (jwt_secret cfg) (15 * 60) (t_chat_iat env))),
                          (''sessionToken'', JStr (session_token_for L cfg env user))]\<rparr>,
            (if filter (\<lambda>r. session_token r = session_token_for L cfg env user)
                  (chat_sessions st) \<noteq> []
             then st\<lparr>chat_sessions :=
                       map (\<lambda>r. if session_token r = session_token_for L cfg env user
                                then r\<lparr>updated_at := tok_db_now env\<rparr> else r)
                           (chat_sessions st),
                     chat_sessions_id_seq := chat_sessions_id_seq st + 1\<rparr>
             else st\<lparr>chat_sessions := chat_sessions st @
                       [\<lparr>cs_id = chat_sessions_id_seq st + 1, user_id = req_user_id user,
                         session_token = session_token_for L cfg env user,
                         conversation_log = Some [],
                         created_at = tok_db_now env, updated_at = tok_db_now env,
                         expires_at = t_expiry env + 24 * 60 * 60 * 1000\<rparr>],
                     chat_sessions_id_seq := chat_sessions_id_seq st + 1\<rparr>),
            [DbWrite])"
  unfolding issueToken_unfold upsert_chat_session_known [OF assms] by simp



lemma js_split_word: "CHR '' '' \<notin> set w \<Longrightarrow> js_split w = [w]"
  by (induction w) auto

lemma bearer_token_compact:
  assumes "tok \<noteq> []" and "CHR '' '' \<notin> set tok"
  shows "bearer_token (Some (''Bearer '' @ tok)) = Some tok"
  using js_split_word [OF assms(2)] by (simp add: bearer_token_def)

lemma authenticateToken_bearer:
  assumes "tok \<noteq> []" and "CHR '' '' \<notin> set tok"
  shows "authenticateToken L cfg now (Some (''Bearer '' @ tok)) =
           (case jwt_verify L tok (jwt_secret cfg) now of
              None \<Rightarrow> Inl (error_response 403 ''Invalid or expired token'')
            | Some user \<Rightarrow> Inr user)"
  unfolding authenticateToken_def bearer_token_compact [OF assms]
  using assms(1) by simp

lemma authenticateToken_signed:
  assumes "jwt_compact L c (jwt_secret cfg) e t0"
    and "jwt_round_trip L c (jwt_secret cfg) e t0 t1"
  shows "authenticateToken L cfg t1 (Some (''Bearer '' @ jwt_sign L c (jwt_secret cfg) e t0)) =
           (if t1 div 1000 < t0 div 1000 + e
            then Inr \<lparr>jwt_claims = c, iat = t0 div 1000, exp = t0 div 1000 + e\<rparr>
            else Inl (error_response 403 ''Invalid or expired token''))"
proof -
  from assms(1) have "jwt_sign L c (jwt_secret cfg) e t0 \<noteq> []"
    and "CHR '' '' \<notin> set (jwt_sign L c (jwt_secret cfg) e t0)"
    by (simp_all add: jwt_compact_def)
  from authenticateToken_bearer [OF this] assms(2) show ?thesis
    by (simp add: jwt_round_trip_def)
qed

text \<open>
  Claim C3. The two tokens that \<open>issueToken\<close> returns to the user \<open>U\<close> are signed and verified
  with the same secret (\<open>jwt_secret\<close>). When \<^verbatim>\<open>jsonwebtoken\<close> gives back what it signed,
  presenting either token as a bearer token to \<open>authenticateToken\<close> yields, until the token
  expires, the payload that was signed, whose \<^verbatim>\<open>userId\<close> is \<open>U\<close>; and whenever verification
  succeeds at all the \<^verbatim>\<open>userId\<close> recovered is \<open>U\<close>, never another one.
\<close>

theorem issued_tokens_verify_to_user:
  assumes "issueToken L cfg env st user = (resp, st', tr)" and "status resp = 200"
    and "req_user_id user = Some U"
    and "jwt_compact L (ChatbotClaims (Some U) ''chatbot'') (jwt_secret cfg) (15 * 60)
           (t_chat_iat env)"
    and "jwt_round_trip L (ChatbotClaims (Some U) ''chatbot'') (jwt_secret cfg) (15 * 60)
           (t_chat_iat env) t1"
    and "jwt_compact L (SessionClaims (Some U) (t_sessionId env)) (jwt_secret cfg)
           (24 * 60 * 60) (t_session_iat env)"
    and "jwt_round_trip L (SessionClaims (Some U) (t_sessionId env)) (jwt_secret cfg)
           (24 * 60 * 60) (t_session_iat env) t1"
  shows "\<exists>chatToken sessionToken.
           body resp = JObj [(''chatToken'', JStr chatToken), (''sessionToken'', JStr sessionToken)]
         \<and> authenticateToken L cfg t1 (Some (''Bearer '' @ chatToken)) =
             (if t1 div 1000 < t_chat_iat env div 1000 + 15 * 60
              then Inr \<lparr>jwt_claims = ChatbotClaims (Some U) ''chatbot'',
                         iat = t_chat_iat env div 1000,
                         exp = t_chat_iat env div 1000 + 15 * 60\<rparr>
              else Inl (error_response 403 ''Invalid or expired token''))
         \<and> authenticateToken L cfg t1 (Some (''Bearer '' @ sessionToken)) =
             (if t1 div 1000 < t_session_iat env div 1000 + 24 * 60 * 60
              then Inr \<lparr>jwt_claims = SessionClaims (Some U) (t_sessionId env),
                         iat = t_session_iat env div 1000,
                         exp = t_session_iat env div 1000 + 24 * 60 * 60\<rparr>
              else Inl (error_response 403 ''Invalid or expired token''))
         \<and> (\<forall>p. authenticateToken L cfg t1 (Some (''Bearer '' @ chatToken)) = Inr p
                  \<or> authenticateToken L cfg t1 (Some (''Bearer '' @ sessionToken)) = Inr p
                \<longrightarrow> payload_userId p = Some U)"
proof -
  let ?chat = "jwt_sign L (ChatbotClaims (Some U) ''chatbot'') (jwt_secret cfg) (15 * 60)
                 (t_chat_iat env)"
  let ?sess = "jwt_sign L (SessionClaims (Some U) (t_sessionId env)) (jwt_secret cfg)
                 (24 * 60 * 60) (t_session_iat env)"
  from assms(1,2,3) have b: "body resp = JObj [(''chatToken'', JStr ?chat), (''sessionToken'', JStr ?sess)]"
    by (auto simp: issueToken_unfold session_token_for_def error_response_def split: sum.splits)
  note c = authenticateToken_signed [OF assms(4,5)]
  note s = authenticateToken_signed [OF assms(6,7)]
  have "\<forall>p. authenticateToken L cfg t1 (Some (''Bearer '' @ ?chat)) = Inr p
                  \<or> authenticateToken L cfg t1 (Some (''Bearer '' @ ?sess)) = Inr p
                \<longrightarrow> payload_userId p = Some U"
    unfolding c s by (auto simp: payload_userId_def split: if_splits)
  with b c s show ?thesis by blast
qed

text \<open>The two tokens of the first user, verified one second after they were issued.\<close>

theorem issued_tokens_verify_to_user_witness:
  "status (fst (issueToken sample_libs sample_config sample_tok_env sample_store (sample_user 1)))
     = 200
   \<and> req_user_id (sample_user 1) = Some 1
   \<and> authenticateToken sample_libs sample_config 6000 (Some ''Bearer chat.token'')
       = Inr \<lparr>jwt_claims = ChatbotClaims (Some 1) ''chatbot'', iat = 5, exp = 905\<rparr>
   \<and> authenticateToken sample_libs sample_config 6000 (Some ''Bearer session.token'')
       = Inr \<lparr>jwt_claims = SessionClaims (Some 1) 5000, iat = 5, exp = 86405\<rparr>"
proof -
  let ?run = "issueToken sample_libs sample_config sample_tok_env sample_store (sample_user 1)"
  have r: "?run = (fst ?run, fst (snd ?run), snd (snd ?run))" by simp
  have uid: "req_user_id (sample_user 1) = Some 1"
    by (simp add: req_user_id_def sample_user_def)
  have k: "known_user sample_store (sample_user 1)"
    by (simp add: known_user_def uid int4_def sample_store_def john_def)
  have len: "length (session_token_for sample_libs sample_config sample_tok_env (sample_user 1))
               \<le> 255"
    by (simp add: session_token_for_def sample_libs_def sample_sign_def)
  have ok: "status (fst ?run) = 200"
    by (simp add: issueToken_known [OF k len])
  have body: "body (fst ?run) = JObj [(''chatToken'', JStr ''chat.token''),
                      (''sessionToken'', JStr ''session.token'')]"
    by (simp add: issueToken_known [OF k len])
       (simp add: session_token_for_def sample_libs_def sample_sign_def)
  have c1: "jwt_compact sample_libs (ChatbotClaims (Some 1) ''chatbot'') (jwt_secret sample_config)
              (15 * 60) (t_chat_iat sample_tok_env)"
    and c2: "jwt_compact sample_libs (SessionClaims (Some 1) (t_sessionId sample_tok_env))
              (jwt_secret sample_config) (24 * 60 * 60) (t_session_iat sample_tok_env)"
    by (simp_all add: jwt_compact_def sample_libs_def sample_sign_def)
  have r1: "jwt_round_trip sample_libs (ChatbotClaims (Some 1) ''chatbot'')
              (jwt_secret sample_config) (15 * 60) (t_chat_iat sample_tok_env) 6000"
    and r2: "jwt_round_trip sample_libs (SessionClaims (Some 1) (t_sessionId sample_tok_env))
              (jwt_secret sample_config) (24 * 60 * 60) (t_session_iat sample_tok_env) 6000"
    by (simp_all add: jwt_round_trip_def sample_libs_def sample_sign_def sample_verify_def
          sample_tok_env_def)
  from issued_tokens_verify_to_user [OF r ok uid c1 r1 c2 r2] body ok uid
  show ?thesis
    by (auto simp: sample_tok_env_def)
qed

end
